theory Spec2Isabelle
  imports Main "HOL-Library.Sublist"
begin

unbundle bit_operations_syntax

chapter \<open>The forum mirror: models of the source\<close>

section \<open>JavaScript strings and errors\<close>

text \<open>
  A JavaScript string is modelled as a \<^typ>\<open>string\<close>; every character of the model is one
  code unit in the range 0..255. An exception is a value: a thrown \<open>Error\<close> carries its message.
\<close>

datatype js_error = Error string | RangeError string | TypeError string

text \<open>\<open>String.prototype.substring(a, b)\<close>: both indices are clamped to the length and swapped
  when they come in the wrong order.\<close>

definition substring :: "string \<Rightarrow> nat \<Rightarrow> nat \<Rightarrow> string" where
  "substring s a b =
     take (max (min a (length s)) (min b (length s)) - min (min a (length s)) (min b (length s)))
       (drop (min (min a (length s)) (min b (length s))) s)"

section \<open>Characters\<close>

text \<open>The character classes of JavaScript regular expressions, on code units 0..255:
  \<open>\s\<close> is tab, line feed, vertical tab, form feed, carriage return, space and the
  no-break space; \<open>\d\<close> and \<open>\w\<close> are ASCII only.\<close>

definition is_space :: "char \<Rightarrow> bool" where
  "is_space c = (of_char c \<in> {9, 10, 11, 12, 13, 32, 160 :: nat})"

definition is_digit :: "char \<Rightarrow> bool" where
  "is_digit c = (c \<in> set ''0123456789'')"

definition is_upper :: "char \<Rightarrow> bool" where
  "is_upper c = (c \<in> set ''ABCDEFGHIJKLMNOPQRSTUVWXYZ'')"

definition is_lower :: "char \<Rightarrow> bool" where
  "is_lower c = (c \<in> set ''abcdefghijklmnopqrstuvwxyz'')"

definition is_word :: "char \<Rightarrow> bool" where
  "is_word c = (is_lower c \<or> is_upper c \<or> is_digit c \<or> c = CHR ''_'')"

text \<open>Case folding of the \<open>i\<close> flag. Among the code units 0..255 only the ASCII letters
  fold onto another ASCII character.\<close>

definition to_lower :: "char \<Rightarrow> char" where
  "to_lower c = (if is_upper c then char_of (of_char c + (32::nat)) else c)"

text \<open>\<open>String.prototype.toLowerCase\<close> on code units 0..255: the ASCII capitals and the
  Latin-1 capitals 0xC0..0xDE (without the multiplication sign 0xD7) move up by 32.\<close>

definition lower_char :: "char \<Rightarrow> char" where
  "lower_char c =
     (if is_upper c \<or> (192 \<le> (of_char c :: nat) \<and> (of_char c :: nat) \<le> 222 \<and> (of_char c :: nat) \<noteq> 215)
      then char_of (of_char c + (32::nat)) else c)"

definition toLowerCase :: "string \<Rightarrow> string" where
  "toLowerCase s = map lower_char s"

definition trim :: "string \<Rightarrow> string" where
  "trim s = rev (dropWhile is_space (rev (dropWhile is_space s)))"

text \<open>\<open>process.env\<close>: a variable is absent or holds a string.\<close>

type_synonym process_env = "string \<Rightarrow> string option"

section \<open>SHA-256 (the digest behind \<open>crypto.createHash('sha256')\<close>)\<close>

text \<open>
  Node's \<open>crypto\<close> module is a library, not code of the repository. Its SHA-256 is written
  out here after FIPS 180-4, on 32-bit words held as natural numbers with the reduction modulo
  \<open>2 ^ 32\<close> explicit at every addition and left shift.
\<close>

type_synonym u32 = nat

definition rotr :: "nat \<Rightarrow> u32 \<Rightarrow> u32" where
  "rotr n x = drop_bit n x OR take_bit 32 (push_bit (32 - n) x)"

definition Ch :: "u32 \<Rightarrow> u32 \<Rightarrow> u32 \<Rightarrow> u32" where
  "Ch x y z = (x AND y) XOR ((x XOR 0xffffffff) AND z)"

definition Maj :: "u32 \<Rightarrow> u32 \<Rightarrow> u32 \<Rightarrow> u32" where
  "Maj x y z = (x AND y) XOR (x AND z) XOR (y AND z)"

definition bsig0 :: "u32 \<Rightarrow> u32" where
  "bsig0 x = rotr 2 x XOR rotr 13 x XOR rotr 22 x"

definition bsig1 :: "u32 \<Rightarrow> u32" where
  "bsig1 x = rotr 6 x XOR rotr 11 x XOR rotr 25 x"

definition ssig0 :: "u32 \<Rightarrow> u32" where
  "ssig0 x = rotr 7 x XOR rotr 18 x XOR drop_bit 3 x"

definition ssig1 :: "u32 \<Rightarrow> u32" where
  "ssig1 x = rotr 17 x XOR rotr 19 x XOR drop_bit 10 x"

text \<open>The round constants and the initial hash value of FIPS 180-4, sections 4.2.2 and 5.3.3,
  in decimal.\<close>

definition K256 :: "u32 list" where
  "K256 = [
   1116352408, 1899447441, 3049323471, 3921009573, 961987163, 1508970993, 2453635748, 2870763221,
   3624381080, 310598401, 607225278, 1426881987, 1925078388, 2162078206, 2614888103, 3248222580,
   3835390401, 4022224774, 264347078, 604807628, 770255983, 1249150122, 1555081692, 1996064986,
   2554220882, 2821834349, 2952996808, 3210313671, 3336571891, 3584528711, 113926993, 338241895,
   666307205, 773529912, 1294757372, 1396182291, 1695183700, 1986661051, 2177026350, 2456956037,
   2730485921, 2820302411, 3259730800, 3345764771, 3516065817, 3600352804, 4094571909, 275423344,
   430227734, 506948616, 659060556, 883997877, 958139571, 1322822218, 1537002063, 1747873779,
   1955562222, 2024104815, 2227730452, 2361852424, 2428436474, 2756734187, 3204031479, 3329325298]"

definition H0 :: "u32 list" where
  "H0 = [1779033703, 3144134277, 1013904242, 2773480762,
         1359893119, 2600822924, 528734635, 1541459225]"

text \<open>The message schedule. The list holds the words computed so far, newest first, so
  \<open>W\<^bsub>t-2\<^esub>\<close>, \<open>W\<^bsub>t-7\<^esub>\<close>, \<open>W\<^bsub>t-15\<^esub>\<close> and \<open>W\<^bsub>t-16\<^esub>\<close> sit at
  positions 1, 6, 14 and 15.\<close>

fun schedule :: "nat \<Rightarrow> u32 list \<Rightarrow> u32 list" where
  "schedule 0 ws = ws"
| "schedule (Suc n) ws =
     schedule n (((ssig1 (ws ! 1) + ws ! 6 + ssig0 (ws ! 14) + ws ! 15) mod 2 ^ 32) # ws)"

fun step2 :: "u32 \<Rightarrow> u32 \<Rightarrow> u32 list \<Rightarrow> u32 list" where
  "step2 t1 t2 [a, b, c, d, e, f, g] =
     [(t1 + t2) mod 2 ^ 32, a, b, c, (d + t1) mod 2 ^ 32, e, f, g]"
| "step2 t1 t2 s = s"

fun round256 :: "u32 list \<Rightarrow> u32 \<times> u32 \<Rightarrow> u32 list" where
  "round256 [a, b, c, d, e, f, g, h] (k, w) =
     step2 ((h + bsig1 e + Ch e f g + k + w) mod 2 ^ 32) ((bsig0 a + Maj a b c) mod 2 ^ 32)
       [a, b, c, d, e, f, g]"
| "round256 s kw = s"

definition compress :: "u32 list \<Rightarrow> u32 list \<Rightarrow> u32 list" where
  "compress hs blk =
     map2 (\<lambda>x y. (x + y) mod 2 ^ 32) hs
       (foldl round256 hs (zip K256 (rev (schedule 48 (rev blk)))))"

fun be32 :: "nat list \<Rightarrow> u32" where
  "be32 [a, b, c, d] = push_bit 24 a OR push_bit 16 b OR push_bit 8 c OR d"
| "be32 bs = 0"

fun chunks :: "nat \<Rightarrow> nat \<Rightarrow> 'a list \<Rightarrow> 'a list list" where
  "chunks 0 k xs = []"
| "chunks (Suc n) k xs = take k xs # chunks n k (drop k xs)"

text \<open>Padding: the byte \<open>0x80\<close>, zero bytes up to 56 modulo 64, and the bit length as a 64-bit
  big-endian number.\<close>

definition pad :: "nat list \<Rightarrow> nat list" where
  "pad m = m @ [0x80] @ replicate ((119 - length m mod 64) mod 64) 0
             @ map (\<lambda>i. take_bit 8 (drop_bit (8 * i) (8 * length m))) [7, 6, 5, 4, 3, 2, 1, 0]"

definition sha256 :: "nat list \<Rightarrow> u32 list" where
  "sha256 m = foldl compress H0
     (map (\<lambda>b. map be32 (chunks 16 4 b)) (chunks (length (pad m) div 64) 64 (pad m)))"

definition hexdigit :: "nat \<Rightarrow> char" where
  "hexdigit n = ''0123456789abcdef'' ! n"

definition hex32 :: "u32 \<Rightarrow> string" where
  "hex32 w = map (\<lambda>i. hexdigit (drop_bit (4 * i) w AND 15)) [7, 6, 5, 4, 3, 2, 1, 0]"

text \<open>\<open>update(s)\<close> with a string hashes its UTF-8 encoding. The strings of this model are
  sequences of code units 0..255, that is of the code points U+0000..U+00FF: a code point below
  128 is one byte, the others are two.\<close>

definition utf8_unit :: "char \<Rightarrow> nat list" where
  "utf8_unit c =
     (if (of_char c :: nat) < 128 then [of_char c]
      else [192 + of_char c div 64, 128 + of_char c mod 64])"

definition utf8 :: "string \<Rightarrow> nat list" where
  "utf8 s = concat (map utf8_unit s)"

text \<open>\<open>createHash('sha256').update(s).digest('hex')\<close>\<close>

definition sha256_hex :: "string \<Rightarrow> string" where
  "sha256_hex s = concat (map hex32 (sha256 (utf8 s)))"

section \<open>The identity hasher (\<open>lib/hash.ts\<close>)\<close>

definition hashUserId :: "process_env \<Rightarrow> string \<Rightarrow> js_error + string" where
  "hashUserId env userId =
     (case env ''PII_PEPPER'' of
        None \<Rightarrow> Inl (Error ''PII_PEPPER environment variable is required'')
      | Some pepper \<Rightarrow>
          if pepper = [] then Inl (Error ''PII_PEPPER environment variable is required'')
          else Inr (substring (sha256_hex (userId @ pepper)) 0 12))"

text \<open>The alias as the specification words it: the first 12 hexadecimal characters of
  SHA-256 of the user id followed by the pepper.\<close>

definition alias_spec :: "string \<Rightarrow> string \<Rightarrow> string" where
  "alias_spec pepper uid = take 12 (sha256_hex (uid @ pepper))"

definition is_hex :: "char \<Rightarrow> bool" where
  "is_hex c = (c \<in> set ''0123456789abcdefABCDEF'')"

definition validatePepper :: "process_env \<Rightarrow> js_error + unit" where
  "validatePepper env =
     (case env ''PII_PEPPER'' of
        None \<Rightarrow> Inl (Error ''PII_PEPPER environment variable is required'')
      | Some pepper \<Rightarrow>
          if pepper = [] then Inl (Error ''PII_PEPPER environment variable is required'')
          else if \<not> (length pepper = 64 \<and> list_all is_hex pepper)
          then Inl (Error ''PII_PEPPER must be a 256-bit (64 character) hex string'')
          else Inr ())"

section \<open>Process start-up (\<open>index.ts\<close>, \<open>main\<close>)\<close>

text \<open>
  What the outside world does during start-up is an input of the model: whether a step
  throws, whether the staff file exists, and its rows (id, tag, and whether the insert of that
  row fails).
\<close>

record boot =
  metrics_throws :: bool
  database_throws :: bool
  csv_exists :: bool
  csv_stream_error :: bool
  csv_rows :: "(string \<times> string \<times> bool) list"
  load_commands_throws :: bool
  login_throws :: bool

datatype run_state = Exited nat | Serving

type_synonym staff_table = "string \<Rightarrow> string option"

text \<open>One record of the staff file: a missing pepper makes \<open>hashUserId\<close> throw, the handler
  of the loop catches and logs, and the row is skipped.\<close>

fun import_staff :: "process_env \<Rightarrow> (string \<times> string \<times> bool) list \<Rightarrow> staff_table \<Rightarrow> staff_table" where
  "import_staff env [] staff = staff"
| "import_staff env ((discordId, tag, insert_fails) # rows) staff =
     (case hashUserId env discordId of
        Inl e \<Rightarrow> import_staff env rows staff
      | Inr hashedId \<Rightarrow>
          if insert_fails then import_staff env rows staff
          else import_staff env rows (staff(hashedId \<mapsto> tag)))"

definition loadStaffFromCSV :: "process_env \<Rightarrow> boot \<Rightarrow> staff_table \<Rightarrow> js_error + staff_table" where
  "loadStaffFromCSV env b staff =
     (if \<not> csv_exists b then Inr staff
      else if csv_stream_error b then Inl (Error ''csv'')
      else Inr (import_staff env
             (map (\<lambda>(i, t, f). (trim i, trim t, f))
                (filter (\<lambda>(i, t, f). i \<noteq> [] \<and> t \<noteq> [] \<and> trim i \<noteq> [] \<and> trim t \<noteq> [])
                   (csv_rows b)))
             staff))"

text \<open>\<open>main\<close> up to the point where the client is logged in and the handlers are registered.
  Every failure inside its \<open>try\<close> ends in \<open>process.exit(1)\<close>. \<open>validatePepper\<close> is not
  called.\<close>

definition main :: "process_env \<Rightarrow> boot \<Rightarrow> staff_table \<Rightarrow> run_state \<times> staff_table" where
  "main env b staff =
     (if metrics_throws b then (Exited 1, staff)
      else if database_throws b then (Exited 1, staff)
      else
        (case (case env ''STAFF_CSV_PATH'' of
                 None \<Rightarrow> Inr staff
               | Some p \<Rightarrow> if p = [] then Inr staff else loadStaffFromCSV env b staff) of
           Inl e \<Rightarrow> (Exited 1, staff)
         | Inr staff' \<Rightarrow>
             if load_commands_throws b then (Exited 1, staff')
             else if login_throws b then (Exited 1, staff')
             else (Serving, staff')))"

section \<open>Regular expressions\<close>

text \<open>
  The regular expressions of the source are values of a datatype, matched by a backtracking
  matcher that returns every way to match at the current position, in the order in which
  JavaScript tries them; the first is the match. A state is the text before the position
  (reversed), the text after it, and the content of capture group 1.
\<close>

datatype regex =
    Atom "char \<Rightarrow> bool"
  | Eps
  | Seq regex regex
  | Alt regex regex
  | Star regex
  | Lazy regex
  | Group regex
  | NotAhead regex
  | WordB
  | Bol
  | Eol

type_synonym mstate = "string \<times> string \<times> string option"

fun star_g :: "(mstate \<Rightarrow> mstate list) \<Rightarrow> nat \<Rightarrow> mstate \<Rightarrow> mstate list" where
  "star_g f 0 st = [st]"
| "star_g f (Suc n) st =
     concat (map (\<lambda>st'. if length (fst (snd st')) < length (fst (snd st)) then star_g f n st' else [])
                 (f st)) @ [st]"

fun star_l :: "(mstate \<Rightarrow> mstate list) \<Rightarrow> nat \<Rightarrow> mstate \<Rightarrow> mstate list" where
  "star_l f 0 st = [st]"
| "star_l f (Suc n) st =
     st # concat (map (\<lambda>st'. if length (fst (snd st')) < length (fst (snd st)) then star_l f n st' else [])
                 (f st))"

definition at_boundary :: "string \<Rightarrow> string \<Rightarrow> bool" where
  "at_boundary b s =
     ((case b of [] \<Rightarrow> False | x # xs \<Rightarrow> is_word x) \<noteq> (case s of [] \<Rightarrow> False | y # ys \<Rightarrow> is_word y))"

primrec rm :: "regex \<Rightarrow> mstate \<Rightarrow> mstate list" where
  "rm (Atom p) st =
     (case st of (b, s, c) \<Rightarrow>
        (case s of [] \<Rightarrow> [] | x # xs \<Rightarrow> if p x then [(x # b, xs, c)] else []))"
| "rm Eps st = [st]"
| "rm (Seq r1 r2) st = concat (map (rm r2) (rm r1 st))"
| "rm (Alt r1 r2) st = rm r1 st @ rm r2 st"
| "rm (Star r) st = star_g (rm r) (length (fst (snd st))) st"
| "rm (Lazy r) st = star_l (rm r) (length (fst (snd st))) st"
| "rm (Group r) st =
     map (\<lambda>(b', s', c'). (b', s', Some (rev (take (length b' - length (fst st)) b')))) (rm r st)"
| "rm (NotAhead r) st = (if rm r st = [] then [st] else [])"
| "rm WordB st = (if at_boundary (fst st) (fst (snd st)) then [st] else [])"
| "rm Bol st = (if fst st = [] then [st] else [])"
| "rm Eol st = (if fst (snd st) = [] then [st] else [])"

text \<open>\<open>exec\<close> at one position: the length of the first match there and its capture.\<close>

definition first_match :: "regex \<Rightarrow> string \<Rightarrow> string \<Rightarrow> (nat \<times> string option) option" where
  "first_match r b s =
     (case rm r (b, s, None) of [] \<Rightarrow> None | st # sts \<Rightarrow> Some (length s - length (fst (snd st)), snd (snd st)))"

text \<open>A replacement string is a list of literal pieces and references \<open>$1\<close>.\<close>

datatype piece = Lit string | Ref1

definition expand :: "piece list \<Rightarrow> string option \<Rightarrow> string" where
  "expand t c = concat (map (\<lambda>p. case p of Lit s \<Rightarrow> s | Ref1 \<Rightarrow> (case c of None \<Rightarrow> [] | Some g \<Rightarrow> g)) t)"

text \<open>
  \<open>String.prototype.replace\<close> with a global expression: matching is tried at every position
  from the left; a match is replaced and the scan goes on behind it (\<open>skip\<close> counts the
  characters of the match still to pass); after an empty match the scan moves one character on.
\<close>

fun replace_scan :: "regex \<Rightarrow> piece list \<Rightarrow> nat \<Rightarrow> string \<Rightarrow> string \<Rightarrow> string" where
  "replace_scan r t skip b [] =
     (if skip = 0 then (case first_match r b [] of None \<Rightarrow> [] | Some (n, c) \<Rightarrow> expand t c) else [])"
| "replace_scan r t skip b (x # xs) =
     (if 0 < skip then replace_scan r t (skip - 1) (x # b) xs
      else (case first_match r b (x # xs) of
              None \<Rightarrow> x # replace_scan r t 0 (x # b) xs
            | Some (n, c) \<Rightarrow>
                expand t c @ (if n = 0 then x # replace_scan r t 0 (x # b) xs
                              else replace_scan r t (n - 1) (x # b) xs)))"

definition replace_all :: "regex \<Rightarrow> piece list \<Rightarrow> string \<Rightarrow> string" where
  "replace_all r t s = replace_scan r t 0 [] s"

text \<open>\<open>String.prototype.match\<close> with a global expression: the matched substrings (the source
  tests the result for \<open>null\<close>, which stands for no match).\<close>

fun match_scan :: "regex \<Rightarrow> nat \<Rightarrow> string \<Rightarrow> string \<Rightarrow> string list" where
  "match_scan r skip b [] =
     (if skip = 0 then (case first_match r b [] of None \<Rightarrow> [] | Some (n, c) \<Rightarrow> [[]]) else [])"
| "match_scan r skip b (x # xs) =
     (if 0 < skip then match_scan r (skip - 1) (x # b) xs
      else (case first_match r b (x # xs) of
              None \<Rightarrow> match_scan r 0 (x # b) xs
            | Some (n, c) \<Rightarrow> take n (x # xs) # match_scan r (n - 1) (x # b) xs))"

definition match_all :: "regex \<Rightarrow> string \<Rightarrow> string list" where
  "match_all r s = match_scan r 0 [] s"

text \<open>\<open>RegExp.prototype.test\<close> from \<open>lastIndex = 0\<close>. Every successful \<open>test\<close> of the source
  is followed by a \<open>replace\<close> with the same expression, which resets \<open>lastIndex\<close>, so each
  \<open>test\<close> starts at 0.\<close>

fun search :: "regex \<Rightarrow> string \<Rightarrow> string \<Rightarrow> bool" where
  "search r b [] = (first_match r b [] \<noteq> None)"
| "search r b (x # xs) = (first_match r b (x # xs) \<noteq> None \<or> search r (x # b) xs)"

definition test :: "regex \<Rightarrow> string \<Rightarrow> bool" where
  "test r s = search r [] s"

subsection \<open>Building blocks\<close>

definition chr :: "char \<Rightarrow> regex" where
  "chr c = Atom (\<lambda>x. x = c)"

definition chr_i :: "char \<Rightarrow> regex" where
  "chr_i c = Atom (\<lambda>x. to_lower x = to_lower c)"

fun seqs :: "regex list \<Rightarrow> regex" where
  "seqs [] = Eps"
| "seqs [r] = r"
| "seqs (r # rs) = Seq r (seqs rs)"

definition lit :: "string \<Rightarrow> regex" where
  "lit s = seqs (map chr s)"

definition lit_i :: "string \<Rightarrow> regex" where
  "lit_i s = seqs (map chr_i s)"

definition Opt :: "regex \<Rightarrow> regex" where
  "Opt r = Alt r Eps"

definition Plus :: "regex \<Rightarrow> regex" where
  "Plus r = Seq r (Star r)"

fun times :: "nat \<Rightarrow> regex \<Rightarrow> regex" where
  "times 0 r = Eps"
| "times (Suc 0) r = r"
| "times (Suc n) r = Seq r (times n r)"

fun upto :: "nat \<Rightarrow> regex \<Rightarrow> regex" where
  "upto 0 r = Eps"
| "upto (Suc n) r = Opt (Seq r (upto n r))"

definition between :: "nat \<Rightarrow> nat \<Rightarrow> regex \<Rightarrow> regex" where
  "between m n r = Seq (times m r) (upto (n - m) r)"

definition digit :: regex where "digit = Atom is_digit"
definition wordc :: regex where "wordc = Atom is_word"
definition space :: regex where "space = Atom is_space"
definition dot :: regex where "dot = Atom (\<lambda>c. c \<noteq> CHR 0x0A \<and> c \<noteq> CHR 0x0D)"
definition anyc :: regex where "anyc = Atom (\<lambda>c. True)"
definition oneof :: "string \<Rightarrow> regex" where "oneof s = Atom (\<lambda>c. c \<in> set s)"
definition noneof :: "(char \<Rightarrow> bool) \<Rightarrow> regex" where "noneof p = Atom (\<lambda>c. \<not> p c)"

section \<open>The content sanitizer (\<open>lib/sanitizer.ts\<close>)\<close>

text \<open>\<^verbatim>\<open>/<@!?(\d{17,19})>/g\<close>, \<^verbatim>\<open>/<#(\d{17,19})>/g\<close>, \<^verbatim>\<open>/<@&(\d{17,19})>/g\<close>,
  \<^verbatim>\<open>/<a?:\w+:\d{17,19}>/g\<close>, \<^verbatim>\<open>/<t:(\d{1,13})(?::([tTdDfFR]))?>/g\<close>\<close>

definition DISCORD_USER_MENTION :: regex where
  "DISCORD_USER_MENTION = seqs [lit ''<@'', Opt (chr CHR ''!''), Group (between 17 19 digit), chr CHR ''>'']"
definition DISCORD_CHANNEL_MENTION :: regex where
  "DISCORD_CHANNEL_MENTION = seqs [lit ''<#'', Group (between 17 19 digit), chr CHR ''>'']"
definition DISCORD_ROLE_MENTION :: regex where
  "DISCORD_ROLE_MENTION = seqs [lit ''<@&'', Group (between 17 19 digit), chr CHR ''>'']"
definition DISCORD_EMOJI :: regex where
  "DISCORD_EMOJI = seqs [chr CHR ''<'', Opt (chr CHR ''a''), chr CHR '':'', Plus wordc, chr CHR '':'',
                         between 17 19 digit, chr CHR ''>'']"
definition DISCORD_TIMESTAMP :: regex where
  "DISCORD_TIMESTAMP = seqs [lit ''<t:'', between 1 13 digit,
                             Opt (Seq (chr CHR '':'') (oneof ''tTdDfFR'')), chr CHR ''>'']"
text \<open>\<^verbatim>\<open>/<script\b[^<]*(?:(?!<\/script>)<[^<]*)*<\/script>/gi\<close>, \<^verbatim>\<open>/javascript:/gi\<close>,
  \<^verbatim>\<open>/\son\w+\s*=/gi\<close>\<close>

definition SCRIPT_TAG :: regex where
  "SCRIPT_TAG = seqs [lit_i ''<script'', WordB, Star (noneof (\<lambda>c. c = CHR ''<'')),
                      Star (seqs [NotAhead (lit_i ''</script>''), chr CHR ''<'', Star (noneof (\<lambda>c. c = CHR ''<''))]),
                      lit_i ''</script>'']"
definition JAVASCRIPT_PROTOCOL :: regex where
  "JAVASCRIPT_PROTOCOL = lit_i ''javascript:''"
definition ON_EVENT_ATTRIBUTES :: regex where
  "ON_EVENT_ATTRIBUTES = seqs [space, lit_i ''on'', Plus wordc, Star space, chr CHR ''='']"
text \<open>\<^verbatim>\<open>/\b[A-Za-z0-9._%+-]+@[A-Za-z0-9.-]+\.[A-Z|a-z]{2,}\b/g\<close>,
  \<^verbatim>\<open>/(\+?1[-.\s]?)?(\(?[0-9]{3}\)?[-.\s]?[0-9]{3}[-.\s]?[0-9]{4})/g\<close>,
  \<^verbatim>\<open>/\b\d{3}-\d{2}-\d{4}\b/g\<close>, \<^verbatim>\<open>/\b(?:\d{4}[-\s]?){3}\d{4}\b/g\<close>\<close>

definition EMAIL_PATTERN :: regex where
  "EMAIL_PATTERN = seqs [WordB, Plus (Atom (\<lambda>c. is_upper c \<or> is_lower c \<or> is_digit c \<or> c \<in> set ''._%+-'')),
                         chr CHR ''@'',
                         Plus (Atom (\<lambda>c. is_upper c \<or> is_lower c \<or> is_digit c \<or> c \<in> set ''.-'')),
                         chr CHR ''.'',
                         times 2 (Atom (\<lambda>c. is_upper c \<or> c = CHR ''|'' \<or> is_lower c)),
                         Star (Atom (\<lambda>c. is_upper c \<or> c = CHR ''|'' \<or> is_lower c)),
                         WordB]"
definition sep :: regex where
  "sep = Opt (Atom (\<lambda>c. c = CHR ''-'' \<or> c = CHR ''.'' \<or> is_space c))"
definition PHONE_PATTERN :: regex where
  "PHONE_PATTERN = seqs [Opt (seqs [Opt (chr CHR ''+''), chr CHR ''1'', sep]),
                         Opt (chr CHR ''(''), times 3 digit, Opt (chr CHR '')''), sep,
                         times 3 digit, sep, times 4 digit]"
definition SSN_PATTERN :: regex where
  "SSN_PATTERN = seqs [WordB, times 3 digit, chr CHR ''-'', times 2 digit, chr CHR ''-'', times 4 digit, WordB]"
definition CREDIT_CARD_PATTERN :: regex where
  "CREDIT_CARD_PATTERN = seqs [WordB,
       times 3 (Seq (times 4 digit) (Opt (Atom (\<lambda>c. c = CHR ''-'' \<or> is_space c)))),
       times 4 digit, WordB]"

record SanitizationResult =
  sanitizedContent :: string
  removedMentions :: "string list"
  removedEmojis :: "string list"
  redactedPii :: bool
  hadScriptTags :: bool

definition sanitizeContent :: "string \<Rightarrow> SanitizationResult" where
  "sanitizeContent content =
    (let sanitized = content;
         userMentions = match_all DISCORD_USER_MENTION sanitized;
         sanitized = (if userMentions \<noteq> [] then replace_all DISCORD_USER_MENTION [Lit ''[User Mention]''] sanitized else sanitized);
         channelMentions = match_all DISCORD_CHANNEL_MENTION sanitized;
         sanitized = (if channelMentions \<noteq> [] then replace_all DISCORD_CHANNEL_MENTION [Lit ''[Channel Mention]''] sanitized else sanitized);
         roleMentions = match_all DISCORD_ROLE_MENTION sanitized;
         sanitized = (if roleMentions \<noteq> [] then replace_all DISCORD_ROLE_MENTION [Lit ''[Role Mention]''] sanitized else sanitized);
         emojis = match_all DISCORD_EMOJI sanitized;
         sanitized = (if emojis \<noteq> [] then replace_all DISCORD_EMOJI [Lit ''[Emoji]''] sanitized else sanitized);
         sanitized = replace_all DISCORD_TIMESTAMP [Lit ''[Timestamp]''] sanitized;
         hadScript = test SCRIPT_TAG sanitized;
         sanitized = (if hadScript then replace_all SCRIPT_TAG [Lit ''[Removed Script]''] sanitized else sanitized);
         sanitized = replace_all JAVASCRIPT_PROTOCOL [Lit ''javascript-removed:''] sanitized;
         sanitized = replace_all ON_EVENT_ATTRIBUTES [Lit '' data-removed-event=''] sanitized;
         hasEmail = test EMAIL_PATTERN sanitized;
         sanitized = (if hasEmail then replace_all EMAIL_PATTERN [Lit ''[Email Redacted]''] sanitized else sanitized);
         hasPhone = test PHONE_PATTERN sanitized;
         sanitized = (if hasPhone then replace_all PHONE_PATTERN [Lit ''[Phone Redacted]''] sanitized else sanitized);
         hasSsn = test SSN_PATTERN sanitized;
         sanitized = (if hasSsn then replace_all SSN_PATTERN [Lit ''[SSN Redacted]''] sanitized else sanitized);
         hasCard = test CREDIT_CARD_PATTERN sanitized;
         sanitized = (if hasCard then replace_all CREDIT_CARD_PATTERN [Lit ''[Card Number Redacted]''] sanitized else sanitized)
     in \<lparr>sanitizedContent = sanitized,
         removedMentions = userMentions @ channelMentions @ roleMentions,
         removedEmojis = emojis,
         redactedPii = (hasEmail \<or> hasPhone \<or> hasSsn \<or> hasCard),
         hadScriptTags = hadScript\<rparr>)"

text \<open>The expressions of \<open>convertToHtml\<close>: \<^verbatim>\<open>/\*\*(.*?)\*\*/g\<close>, \<^verbatim>\<open>/\*(.*?)\*/g\<close>,
  \<^verbatim>\<open>/~~(.*?)~~/g\<close>, the same with one backquote, with three backquotes around
  \<^verbatim>\<open>([\s\S]*?)\<close>, \<^verbatim>\<open>/\n/g\<close> and \<^verbatim>\<open>/(https?:\/\/[^\s]+)/g\<close>.\<close>

definition MD_BOLD :: regex where
  "MD_BOLD = seqs [lit ''**'', Group (Lazy dot), lit ''**'']"
definition MD_ITALIC :: regex where
  "MD_ITALIC = seqs [lit ''*'', Group (Lazy dot), lit ''*'']"
definition MD_STRIKE :: regex where
  "MD_STRIKE = seqs [lit ''~~'', Group (Lazy dot), lit ''~~'']"
definition MD_CODE :: regex where
  "MD_CODE = seqs [chr (CHR 0x60), Group (Lazy dot), chr (CHR 0x60)]"
definition MD_CODE_BLOCK :: regex where
  "MD_CODE_BLOCK = seqs [times 3 (chr (CHR 0x60)), Group (Lazy anyc), times 3 (chr (CHR 0x60))]"
definition NEWLINE :: regex where
  "NEWLINE = chr (CHR 0x0A)"
definition URL_PATTERN :: regex where
  "URL_PATTERN = Group (seqs [lit ''http'', Opt (chr CHR ''s''), lit ''://'', Plus (noneof is_space)])"

definition convertToHtml :: "string \<Rightarrow> string" where
  "convertToHtml content =
    (let html = content;
         html = replace_all MD_BOLD [Lit ''<strong>'', Ref1, Lit ''</strong>''] html;
         html = replace_all MD_ITALIC [Lit ''<em>'', Ref1, Lit ''</em>''] html;
         html = replace_all MD_STRIKE [Lit ''<del>'', Ref1, Lit ''</del>''] html;
         html = replace_all MD_CODE [Lit ''<code>'', Ref1, Lit ''</code>''] html;
         html = replace_all MD_CODE_BLOCK [Lit ''<pre><code>'', Ref1, Lit ''</code></pre>''] html;
         html = replace_all NEWLINE [Lit ''<br>''] html;
         html = replace_all URL_PATTERN
                  [Lit (''<a href='' @ [CHR 0x22]), Ref1,
                   Lit ([CHR 0x22] @ '' target='' @ [CHR 0x22] @ ''_blank'' @ [CHR 0x22] @ '' rel=''
                        @ [CHR 0x22] @ ''noopener noreferrer'' @ [CHR 0x22] @ ''>''),
                   Ref1, Lit ''</a>''] html
     in html)"





text \<open>The patterns of the specification's non-escape property: \<^verbatim>\<open><@!?\d+>\<close>,
  \<^verbatim>\<open><#\d+>\<close>, \<^verbatim>\<open><@&\d+>\<close> and the literal \<^verbatim>\<open>javascript:\<close>.\<close>

definition SPEC_USER_MENTION :: regex where
  "SPEC_USER_MENTION = seqs [lit ''<@'', Opt (chr CHR ''!''), Plus digit, chr CHR ''>'']"
definition SPEC_CHANNEL_MENTION :: regex where
  "SPEC_CHANNEL_MENTION = seqs [lit ''<#'', Plus digit, chr CHR ''>'']"
definition SPEC_ROLE_MENTION :: regex where
  "SPEC_ROLE_MENTION = seqs [lit ''<@&'', Plus digit, chr CHR ''>'']"
definition SPEC_JAVASCRIPT :: regex where
  "SPEC_JAVASCRIPT = lit ''javascript:''"

section \<open>Slugs\<close>

text \<open>\<^verbatim>\<open>/[^a-z0-9\s-]/g\<close>, \<^verbatim>\<open>/\s+/g\<close>, \<^verbatim>\<open>/-+/g\<close>, \<^verbatim>\<open>/^-|-$/g\<close>\<close>

definition SLUG_STRIP :: regex where
  "SLUG_STRIP = Atom (\<lambda>c. \<not> (is_lower c \<or> is_digit c \<or> is_space c \<or> c = CHR ''-''))"
definition SPACES :: regex where
  "SPACES = Plus space"
definition HYPHENS :: regex where
  "HYPHENS = Plus (chr CHR ''-'')"
definition EDGE_HYPHEN :: regex where
  "EDGE_HYPHEN = Alt (Seq Bol (chr CHR ''-'')) (Seq (chr CHR ''-'') Eol)"

text \<open>The slug of \<open>syncSpecificThread\<close> (\<open>lib/sync.ts\<close>); \<open>syncNewThread\<close>
  (\<open>lib/deltaSync.ts\<close>) and \<open>handleThreadUpsert\<close> compute the same expression.\<close>

definition syncSpecificThread_slug :: "string \<Rightarrow> string" where
  "syncSpecificThread_slug name =
     substring
       (replace_all EDGE_HYPHEN []
         (replace_all HYPHENS [Lit ''-'']
           (replace_all SPACES [Lit ''-'']
             (replace_all SLUG_STRIP [] (toLowerCase name))))) 0 255"

text \<open>The slug of \<open>upsertThread\<close> (\<open>lib/smartSync.ts\<close>): \<open>trim()\<close> after the strip, no removal
  of hyphens at the ends, no truncation.\<close>

definition upsertThread_slug :: "string \<Rightarrow> string" where
  "upsertThread_slug name =
     replace_all HYPHENS [Lit ''-'']
       (replace_all SPACES [Lit ''-'']
         (trim (replace_all SLUG_STRIP [] (toLowerCase name))))"

text \<open>The shape the specification promises: \<^verbatim>\<open>^[a-z0-9]+(-[a-z0-9]+)*$\<close> or empty, at most 255
  characters.\<close>

definition SLUG_SHAPE :: regex where
  "SLUG_SHAPE = seqs [Bol, Plus (Atom (\<lambda>c. is_lower c \<or> is_digit c)),
                      Star (Seq (chr CHR ''-'') (Plus (Atom (\<lambda>c. is_lower c \<or> is_digit c)))), Eol]"

definition slug_ok :: "string \<Rightarrow> bool" where
  "slug_ok s = ((s = [] \<or> test SLUG_SHAPE s) \<and> length s \<le> 255)"

section \<open>Discord entities\<close>

text \<open>
  The part of a discord.js object the synchronisation reads. What the platform answers to a
  request is data of the entity: the starter message of a thread, the successive batches of its
  message pagination, the answer to a fetch \<open>after\<close> a time, the author of the message a
  reference points to (\<open>None\<close> when the platform has no such message and the fetch rejects), and
  what the image pipeline returns for the attachments.
\<close>

type_synonym snowflake = string

record message =
  m_id :: snowflake
  m_channel :: snowflake
  m_author :: string
  m_bot :: bool
  m_content :: string
  m_attachments :: "string list"
  m_images :: "(string \<times> nat \<times> nat) list"
  m_reference :: "snowflake option"
  m_ref_author :: "string option"
  m_created :: nat
  m_edited :: "nat option"

record thread_channel =
  t_id :: snowflake
  t_parent :: snowflake
  t_name :: string
  t_owner :: "string option"
  t_applied_tags :: "string list"
  t_available_tags :: "(string \<times> string) list"
  t_created :: nat
  t_starter :: "message option"
  t_pages :: "message list list"
  t_after :: "nat \<Rightarrow> message list"

record forum_channel =
  c_id :: snowflake
  c_kind :: nat
  c_name :: string
  c_topic :: "string option"
  c_position :: int
  c_created :: nat
  c_active :: "thread_channel list"
  c_archived :: "thread_channel list"

record guild =
  g_id :: snowflake
  g_name :: string
  g_channels :: "forum_channel list"

text \<open>\<open>message.reference && message.reference.messageId\<close>: an empty id is falsy.\<close>

definition reference_of :: "message \<Rightarrow> snowflake option" where
  "reference_of m = (case m_reference m of None \<Rightarrow> None | Some r \<Rightarrow> if r = [] then None else Some r)"

section \<open>The relational store and the outside world\<close>

record post_row =
  p_thread_id :: snowflake
  p_author_alias :: string
  p_body_html :: string
  p_reply_to_id :: "snowflake option"
  p_reply_to_author_alias :: "string option"
  p_created_at :: nat
  p_updated_at :: nat

record thread_row =
  th_channel_id :: snowflake
  th_slug :: string
  th_title :: string
  th_author_alias :: string
  th_body_html :: string
  th_tags :: "string list option"
  th_reply_count :: int
  th_created_at :: nat
  th_updated_at :: nat

record channel_row =
  ch_slug :: string
  ch_name :: string
  ch_description :: "string option"
  ch_position :: int
  ch_created_at :: nat

text \<open>The cell \<open>config.value\<close> of the row \<open>sync_state\<close>, by what \<open>JSON.parse\<close> makes of it: a
  syntax error, \<open>null\<close> (also for an SQL NULL), or a value whose field \<open>is_first_run\<close> is a
  number or not (\<open>None\<close>) and whose field \<open>last_sync\<close> gives a valid date in milliseconds or
  not (\<open>None\<close>).\<close>

record SyncState =
  last_sync :: "nat option"
  is_first_run :: "int option"

datatype config_value = Malformed | JsonNull | JsonState SyncState

text \<open>
  The world: the tables, the wall clock in milliseconds, and a script of what the next requests
  to the database or the platform do: whether the request fails (a lost connection, a timeout, a
  rejected fetch) and how long it takes. A request past the end of the script succeeds at once.
  The tables \<open>posts\<close> and \<open>threads\<close> are lists of rows under their primary key, in the order
  of insertion. What the schema (\<open>init-db.sql\<close>) adds to the primary keys is part of the writes
  below: \<open>threads.slug\<close> is \<open>UNIQUE\<close>, \<open>threads.channel_id\<close> references \<open>channels(id)\<close> and
  \<open>posts.thread_id\<close> references \<open>threads(id)\<close>.
\<close>

record world =
  posts :: "(snowflake \<times> post_row) list"
  threads :: "(snowflake \<times> thread_row) list"
  channels :: "snowflake \<rightharpoonup> channel_row"
  config :: "string \<rightharpoonup> config_value"
  staff_roles :: "string \<rightharpoonup> string"
  script :: "(bool \<times> nat) list"
  clock :: nat

definition request :: "world \<Rightarrow> bool \<times> world" where
  "request w =
     (case script w of
        [] \<Rightarrow> (True, w)
      | (fails, ms) # rest \<Rightarrow> (\<not> fails, w\<lparr>script := rest, clock := clock w + ms\<rparr>))"

definition sleep :: "nat \<Rightarrow> world \<Rightarrow> world" where
  "sleep ms w = w\<lparr>clock := clock w + ms\<rparr>"

definition query_failed :: js_error where
  "query_failed = Error ''query failed''"

definition find_post :: "world \<Rightarrow> snowflake \<Rightarrow> post_row option" where
  "find_post w i = map_of (posts w) i"

text \<open>The rows of \<open>posts\<close> after \<open>INSERT INTO posts ... ON DUPLICATE KEY UPDATE body_html,
  reply_to_id, reply_to_author_alias, updated_at\<close> has gone through.\<close>

fun upsert_row :: "snowflake \<Rightarrow> post_row \<Rightarrow> (snowflake \<times> post_row) list \<Rightarrow> (snowflake \<times> post_row) list" where
  "upsert_row i r [] = [(i, r)]"
| "upsert_row i r ((k, old) # ps) =
     (if k = i
      then (k, old\<lparr>p_body_html := p_body_html r, p_reply_to_id := p_reply_to_id r,
                    p_reply_to_author_alias := p_reply_to_author_alias r,
                    p_updated_at := p_updated_at r\<rparr>) # ps
      else (k, old) # upsert_row i r ps)"

text \<open>\<open>UPDATE posts SET reply_to_id, reply_to_author_alias, updated_at WHERE id\<close>\<close>

fun update_reply :: "snowflake \<Rightarrow> snowflake \<Rightarrow> string \<Rightarrow> nat \<Rightarrow> (snowflake \<times> post_row) list \<Rightarrow> (snowflake \<times> post_row) list" where
  "update_reply i ref_id ref_alias now [] = []"
| "update_reply i ref_id ref_alias now ((k, old) # ps) =
     (if k = i
      then (k, old\<lparr>p_reply_to_id := Some ref_id, p_reply_to_author_alias := Some ref_alias,
                    p_updated_at := now\<rparr>) # update_reply i ref_id ref_alias now ps
      else (k, old) # update_reply i ref_id ref_alias now ps)"

definition count_posts :: "world \<Rightarrow> snowflake \<Rightarrow> nat" where
  "count_posts w t = length (filter (\<lambda>(i, r). p_thread_id r = t) (posts w))"

definition find_thread :: "world \<Rightarrow> snowflake \<Rightarrow> thread_row option" where
  "find_thread w i = map_of (threads w) i"

text \<open>The thread that holds a slug, if one does.\<close>

definition slug_holder :: "world \<Rightarrow> string \<Rightarrow> snowflake option" where
  "slug_holder w s = map_option fst (find (\<lambda>(k, row). th_slug row = s) (threads w))"

text \<open>\<open>UPDATE threads SET ... WHERE id = ?\<close>: the assignments as a function of the row.\<close>

definition change_row :: "snowflake \<Rightarrow> (thread_row \<Rightarrow> thread_row) \<Rightarrow> (snowflake \<times> thread_row) list \<Rightarrow> (snowflake \<times> thread_row) list" where
  "change_row i f rows = map (\<lambda>(k, row). if k = i then (k, f row) else (k, row)) rows"

definition duplicate_entry :: js_error where
  "duplicate_entry = Error ''Duplicate entry''"

definition no_referenced_row :: js_error where
  "no_referenced_row = Error ''Cannot add or update a child row: a foreign key constraint fails''"

text \<open>
  \<open>INSERT INTO threads ... ON DUPLICATE KEY UPDATE ...\<close>, with the assignments of the update as
  a function of the old row. The primary key is tried first: a row with this id is updated, and
  the update fails when it moves the slug onto the slug of another row. Without such a row the
  unique index on \<open>slug\<close> is tried: when another thread holds the slug, that row is the
  duplicate, it is updated, and no row is inserted; no error is raised. Otherwise the row is
  inserted, which fails when the channel is not in \<open>channels\<close>.
\<close>

definition insert_thread :: "snowflake \<Rightarrow> thread_row \<Rightarrow> (thread_row \<Rightarrow> thread_row) \<Rightarrow> world \<Rightarrow> (js_error + unit) \<times> world" where
  "insert_thread i new on_duplicate w =
     (case find_thread w i of
        Some old \<Rightarrow>
          if th_slug (on_duplicate old) \<noteq> th_slug old
             \<and> list_ex (\<lambda>(k, row). k \<noteq> i \<and> th_slug row = th_slug (on_duplicate old)) (threads w)
          then (Inl duplicate_entry, w)
          else (Inr (), w\<lparr>threads := change_row i on_duplicate (threads w)\<rparr>)
      | None \<Rightarrow>
          (case slug_holder w (th_slug new) of
             Some k \<Rightarrow> (Inr (), w\<lparr>threads := change_row k on_duplicate (threads w)\<rparr>)
           | None \<Rightarrow>
               if channels w (th_channel_id new) = None then (Inl no_referenced_row, w)
               else (Inr (), w\<lparr>threads := threads w @ [(i, new)]\<rparr>)))"

text \<open>
  \<open>INSERT INTO posts ... ON DUPLICATE KEY UPDATE body_html, reply_to_id, reply_to_author_alias,
  updated_at\<close>: a new post needs its thread in \<open>threads\<close>. The reference of \<open>reply_to_id\<close> to
  \<open>posts(id)\<close> is not checked here: every caller sets \<open>reply_to_id\<close> only after it has found the
  referent in the table.
\<close>

definition insert_post :: "snowflake \<Rightarrow> post_row \<Rightarrow> world \<Rightarrow> (js_error + unit) \<times> world" where
  "insert_post i new w =
     (if find_post w i = None \<and> find_thread w (p_thread_id new) = None
      then (Inl no_referenced_row, w)
      else (Inr (), w\<lparr>posts := upsert_row i new (posts w)\<rparr>))"

text \<open>\<open>UPDATE threads SET reply_count = ? WHERE id = ?\<close>\<close>

definition set_reply_count :: "snowflake \<Rightarrow> int \<Rightarrow> world \<Rightarrow> world" where
  "set_reply_count threadId n w =
     w\<lparr>threads := change_row threadId (\<lambda>row. row\<lparr>th_reply_count := n\<rparr>) (threads w)\<rparr>"

section \<open>Normalising a message\<close>

function show_nat :: "nat \<Rightarrow> string" where
  "show_nat n = (if n < 10 then [hexdigit n] else show_nat (n div 10) @ [hexdigit (n mod 10)])"
  by pat_completeness auto
termination
  by (relation "measure id") auto

definition dq :: string where
  "dq = [CHR 0x22]"

definition img_tag :: "string \<times> nat \<times> nat \<Rightarrow> string" where
  "img_tag img = (case img of (url, width, height) \<Rightarrow>
     ''<img src='' @ dq @ url @ dq @ '' width='' @ dq @ show_nat width @ dq
       @ '' height='' @ dq @ show_nat height @ dq @ '' alt='' @ dq @ ''Image'' @ dq @ '' />'')"

fun join :: "string \<Rightarrow> string list \<Rightarrow> string" where
  "join s [] = []"
| "join s [x] = x"
| "join s (x # xs) = x @ s @ join s xs"

text \<open>The html of a message: the sanitized and converted content, then the processed images
  when the message has attachments and the pipeline returned any.\<close>

definition content_html :: "message \<Rightarrow> string" where
  "content_html m =
     (let html = convertToHtml (sanitizedContent (sanitizeContent (m_content m))) in
      if m_attachments m \<noteq> [] \<and> m_images m \<noteq> []
      then html @ ''<br>'' @ join ''<br>'' (map img_tag (m_images m))
      else html)"

text \<open>\<open>getStaffTag\<close> (\<open>lib/staffLoader.ts\<close>): every failure inside is caught and gives
  \<open>null\<close>.\<close>

definition getStaffTag :: "process_env \<Rightarrow> string \<Rightarrow> world \<Rightarrow> string option \<times> world" where
  "getStaffTag env discordUserId w =
     (case hashUserId env discordUserId of
        Inl e \<Rightarrow> (None, w)
      | Inr hashedId \<Rightarrow>
          (case request w of (ok, w1) \<Rightarrow>
             if \<not> ok then (None, w1)
             else (case staff_roles w1 hashedId of
                     None \<Rightarrow> (None, w1)
                   | Some tag \<Rightarrow> (if tag = [] then None else Some tag, w1))))"

definition author_alias :: "string \<Rightarrow> string option \<Rightarrow> string" where
  "author_alias authorId staffTag =
     (case staffTag of None \<Rightarrow> authorId | Some tag \<Rightarrow> take 8 authorId @ '':'' @ tag)"

section \<open>The smart sync (\<open>lib/smartSync.ts\<close>)\<close>

datatype sync_mode = Full | Delta

record SyncStats =
  mode :: sync_mode
  guildsProcessed :: nat
  channelsProcessed :: nat
  threadsProcessed :: nat
  postsProcessed :: nat
  errorsEncountered :: nat
  startTime :: nat
  endTime :: "nat option"
  durationMs :: "nat option"

definition count_error :: "SyncStats \<Rightarrow> SyncStats" where
  "count_error stats = stats\<lparr>errorsEncountered := errorsEncountered stats + 1\<rparr>"

definition default_state :: SyncState where
  "default_state = \<lparr>last_sync = Some 0, is_first_run = Some 1\<rparr>"

text \<open>\<open>getSyncState\<close>: a failed query, a missing row and a syntax error of \<open>JSON.parse\<close> are all
  caught and answered with the default state. The result is what \<open>JSON.parse\<close> returned, which
  can be \<open>null\<close> (\<open>None\<close>).\<close>

definition getSyncState :: "world \<Rightarrow> SyncState option \<times> world" where
  "getSyncState w =
     (case request w of (ok, w1) \<Rightarrow>
        if \<not> ok then (Some default_state, w1)
        else (case config w1 ''sync_state'' of
                None \<Rightarrow> (Some default_state, w1)
              | Some Malformed \<Rightarrow> (Some default_state, w1)
              | Some JsonNull \<Rightarrow> (None, w1)
              | Some (JsonState st) \<Rightarrow> (Some st, w1)))"

text \<open>\<open>updateSyncState\<close>: the new state takes \<open>new Date()\<close> at the moment of the call; the
  \<open>UPDATE\<close> changes the row \<open>sync_state\<close> where it exists and inserts nothing.\<close>

definition updateSyncState :: "world \<Rightarrow> (js_error + unit) \<times> world" where
  "updateSyncState w =
     (let newState = \<lparr>last_sync = Some (clock w), is_first_run = Some 0\<rparr> in
      case request w of (ok, w1) \<Rightarrow>
        if \<not> ok then (Inl query_failed, w1)
        else (Inr (),
              (case config w1 ''sync_state'' of
                 None \<Rightarrow> w1
               | Some old \<Rightarrow> w1\<lparr>config := (config w1)(''sync_state'' \<mapsto> JsonState newState)\<rparr>)))"

definition upsertChannel :: "forum_channel \<Rightarrow> world \<Rightarrow> (js_error + unit) \<times> world" where
  "upsertChannel channel w =
     (let slug = upsertThread_slug (c_name channel) in
      case request w of (ok, w1) \<Rightarrow>
        if \<not> ok then (Inl query_failed, w1)
        else (Inr (),
              w1\<lparr>channels := (channels w1)(c_id channel \<mapsto>
                (case channels w1 (c_id channel) of
                   None \<Rightarrow> \<lparr>ch_slug = slug, ch_name = c_name channel,
                             ch_description = Some (case c_topic channel of None \<Rightarrow> [] | Some t \<Rightarrow> t),
                             ch_position = c_position channel, ch_created_at = c_created channel\<rparr>
                 | Some old \<Rightarrow> old\<lparr>ch_slug := slug, ch_name := c_name channel,
                             ch_description := Some (case c_topic channel of None \<Rightarrow> [] | Some t \<Rightarrow> t),
                             ch_position := c_position channel\<rparr>))\<rparr>))"

text \<open>The body of a thread in \<open>upsertThread\<close>: a rejected \<open>fetchStarterMessage\<close> is caught and
  leaves the body empty.\<close>

definition starter_body :: "thread_channel \<Rightarrow> world \<Rightarrow> string \<times> world" where
  "starter_body thread w =
     (case request w of (ok, w1) \<Rightarrow>
        if \<not> ok then ([], w1)
        else (case t_starter thread of
                None \<Rightarrow> ([], w1)
              | Some starterMessage \<Rightarrow>
                  if m_bot starterMessage then ([], w1) else (content_html starterMessage, w1)))"

text \<open>\<open>upsertThread\<close>: \<open>INSERT INTO threads ... ON DUPLICATE KEY UPDATE slug, title,
  body_html, tags, updated_at\<close>; the reply count of an existing row is not touched.\<close>

definition upsertThread :: "process_env \<Rightarrow> thread_channel \<Rightarrow> world \<Rightarrow> (js_error + unit) \<times> world" where
  "upsertThread env thread w =
     (let slug = upsertThread_slug (t_name thread);
          ownerId = (case t_owner thread of None \<Rightarrow> [] | Some x \<Rightarrow> x) in
      case hashUserId env ownerId of
        Inl e \<Rightarrow> (Inl e, w)
      | Inr authorId \<Rightarrow>
          (case getStaffTag env ownerId w of (staffTag, w1) \<Rightarrow>
           case starter_body thread w1 of (bodyHtml, w2) \<Rightarrow>
           case request w2 of (ok, w3) \<Rightarrow>
             if \<not> ok then (Inl query_failed, w3)
             else insert_thread (t_id thread)
                    \<lparr>th_channel_id = t_parent thread, th_slug = slug,
                     th_title = t_name thread,
                     th_author_alias = author_alias authorId staffTag,
                     th_body_html = bodyHtml, th_tags = Some (t_applied_tags thread),
                     th_reply_count = 0, th_created_at = t_created thread,
                     th_updated_at = clock w2\<rparr>
                    (\<lambda>old. old\<lparr>th_slug := slug, th_title := t_name thread,
                                th_body_html := bodyHtml,
                                th_tags := Some (t_applied_tags thread),
                                th_updated_at := clock w2\<rparr>) w3))"

text \<open>The reply reference of \<open>upsertPost\<close>: kept, with the stored referent's alias, when the
  referent is in the table; cleared when it is not or the lookup fails.\<close>

definition lookup_reply :: "snowflake option \<Rightarrow> world \<Rightarrow> (snowflake option \<times> string option) \<times> world" where
  "lookup_reply reference w =
     (case reference of
        None \<Rightarrow> ((None, None), w)
      | Some replyToId \<Rightarrow>
          (case request w of (ok, w1) \<Rightarrow>
             if \<not> ok then ((None, None), w1)
             else (case find_post w1 replyToId of
                     Some referencedPost \<Rightarrow> ((Some replyToId, Some (p_author_alias referencedPost)), w1)
                   | None \<Rightarrow> ((None, None), w1))))"

text \<open>\<open>message.editedAt || message.createdAt\<close>\<close>

definition edited_or_created :: "message \<Rightarrow> nat" where
  "edited_or_created m = (case m_edited m of None \<Rightarrow> m_created m | Some t \<Rightarrow> t)"

definition upsertPost :: "process_env \<Rightarrow> message \<Rightarrow> SyncStats \<Rightarrow> world \<Rightarrow> (js_error + unit) \<times> SyncStats \<times> world" where
  "upsertPost env message stats w =
     (case hashUserId env (m_author message) of
        Inl e \<Rightarrow> (Inl e, stats, w)
      | Inr authorId \<Rightarrow>
          (case getStaffTag env (m_author message) w of (staffTag, w1) \<Rightarrow>
           case lookup_reply (reference_of message) w1 of ((replyToId, replyToAuthorAlias), w2) \<Rightarrow>
           case request w2 of (ok, w3) \<Rightarrow>
             if \<not> ok then (Inl query_failed, stats, w3)
             else (case insert_post (m_id message)
                          \<lparr>p_thread_id = m_channel message,
                           p_author_alias = author_alias authorId staffTag,
                           p_body_html = content_html message,
                           p_reply_to_id = replyToId, p_reply_to_author_alias = replyToAuthorAlias,
                           p_created_at = m_created message,
                           p_updated_at = edited_or_created message\<rparr> w3 of
                     (Inl e, w4) \<Rightarrow> (Inl e, stats, w4)
                   | (Inr u, w4) \<Rightarrow>
                       (Inr (), stats\<lparr>postsProcessed := postsProcessed stats + 1\<rparr>, w4))))"

text \<open>\<open>UPDATE threads SET reply_count = (SELECT COUNT(*) - 1 FROM posts WHERE thread_id = ?)
  WHERE id = ?\<close>\<close>

definition updateThreadReplyCount :: "snowflake \<Rightarrow> world \<Rightarrow> (js_error + unit) \<times> world" where
  "updateThreadReplyCount threadId w =
     (case request w of (ok, w1) \<Rightarrow>
        if \<not> ok then (Inl query_failed, w1)
        else (Inr (), set_reply_count threadId (int (count_posts w1 threadId) - 1) w1))"

text \<open>A discord.js \<open>Collection\<close> is a map that keeps insertion order: \<open>set\<close> replaces the value
  of a known key in place and appends a new key.\<close>

fun coll_set :: "('k \<times> 'v) list \<Rightarrow> 'k \<times> 'v \<Rightarrow> ('k \<times> 'v) list" where
  "coll_set [] kv = [kv]"
| "coll_set ((k, v) # kvs) kv = (if k = fst kv then (k, snd kv) # kvs else (k, v) # coll_set kvs kv)"

text \<open>\<open>fetchAllMessages\<close>: batches are fetched until one is empty or a fetch fails; after each
  batch the loop sleeps 100 ms. When the scripted batches are used up the platform answers with
  an empty batch.\<close>

fun fetch_batches :: "message list list \<Rightarrow> (snowflake \<times> message) list \<Rightarrow> world \<Rightarrow> (snowflake \<times> message) list \<times> world" where
  "fetch_batches [] messages w = (case request w of (ok, w1) \<Rightarrow> (messages, w1))"
| "fetch_batches (batch # rest) messages w =
     (case request w of (ok, w1) \<Rightarrow>
        if \<not> ok then (messages, w1)
        else if batch = [] then (messages, w1)
        else fetch_batches rest (foldl coll_set messages (map (\<lambda>m. (m_id m, m)) batch)) (sleep 100 w1))"

definition fetchAllMessages :: "thread_channel \<Rightarrow> world \<Rightarrow> (snowflake \<times> message) list \<times> world" where
  "fetchAllMessages thread w = fetch_batches (t_pages thread) [] w"

text \<open>The loop over the sorted messages: bots are skipped, a failed \<open>upsertPost\<close> is counted and
  the loop goes on.\<close>

fun upsertPosts :: "process_env \<Rightarrow> message list \<Rightarrow> SyncStats \<Rightarrow> world \<Rightarrow> SyncStats \<times> world" where
  "upsertPosts env [] stats w = (stats, w)"
| "upsertPosts env (message # rest) stats w =
     (if m_bot message then upsertPosts env rest stats w
      else (case upsertPost env message stats w of
              (Inl e, stats1, w1) \<Rightarrow> upsertPosts env rest (count_error stats1) w1
            | (Inr u, stats1, w1) \<Rightarrow> upsertPosts env rest stats1 w1))"

definition syncThreadFull :: "process_env \<Rightarrow> thread_channel \<Rightarrow> SyncStats \<Rightarrow> world \<Rightarrow> (js_error + unit) \<times> SyncStats \<times> world" where
  "syncThreadFull env thread stats w =
     (case upsertThread env thread w of
        (Inl e, w1) \<Rightarrow> (Inl e, stats, w1)
      | (Inr u, w1) \<Rightarrow>
          (case fetchAllMessages thread w1 of (messages, w2) \<Rightarrow>
           case upsertPosts env (sort_key m_created (map snd messages)) stats w2 of (stats1, w3) \<Rightarrow>
           case updateThreadReplyCount (t_id thread) w3 of
             (Inl e, w4) \<Rightarrow> (Inl e, stats1, w4)
           | (Inr u, w4) \<Rightarrow> (Inr (), stats1, w4)))"

definition syncThreadDelta :: "process_env \<Rightarrow> thread_channel \<Rightarrow> SyncStats \<Rightarrow> nat \<Rightarrow> world \<Rightarrow> (js_error + unit) \<times> SyncStats \<times> world" where
  "syncThreadDelta env thread stats lastSyncDate w =
     (case upsertThread env thread w of
        (Inl e, w1) \<Rightarrow> (Inl e, stats, w1)
      | (Inr u, w1) \<Rightarrow>
          (case request w1 of (ok, w2) \<Rightarrow>
             if \<not> ok then (Inl (Error ''fetch failed''), stats, w2)
             else
               (case upsertPosts env
                       (sort_key m_created
                          (map snd (foldl coll_set [] (map (\<lambda>m. (m_id m, m)) (t_after thread lastSyncDate)))))
                       stats w2 of (stats1, w3) \<Rightarrow>
                case updateThreadReplyCount (t_id thread) w3 of
                  (Inl e, w4) \<Rightarrow> (Inl e, stats1, w4)
                | (Inr u, w4) \<Rightarrow> (Inr (), stats1, w4))))"

text \<open>The loops over the threads of a channel: a thread that throws is counted as an error.\<close>

fun syncThreads :: "(thread_channel \<Rightarrow> SyncStats \<Rightarrow> world \<Rightarrow> (js_error + unit) \<times> SyncStats \<times> world) \<Rightarrow> thread_channel list \<Rightarrow> SyncStats \<Rightarrow> world \<Rightarrow> SyncStats \<times> world" where
  "syncThreads syncThread [] stats w = (stats, w)"
| "syncThreads syncThread (thread # rest) stats w =
     (case syncThread thread stats w of
        (Inl e, stats1, w1) \<Rightarrow> syncThreads syncThread rest (count_error stats1) w1
      | (Inr u, stats1, w1) \<Rightarrow>
          syncThreads syncThread rest (stats1\<lparr>threadsProcessed := threadsProcessed stats1 + 1\<rparr>) w1)"

text \<open>\<open>fetchActive\<close>, then \<open>fetchArchived\<close>, merged into one collection keyed by id.\<close>

definition fetch_threads :: "forum_channel \<Rightarrow> world \<Rightarrow> thread_channel list option \<times> world" where
  "fetch_threads channel w =
     (case request w of (ok, w1) \<Rightarrow>
        if \<not> ok then (None, w1)
        else (case request w1 of (ok2, w2) \<Rightarrow>
                if \<not> ok2 then (None, w2)
                else (Some (map snd (foldl coll_set []
                              (map (\<lambda>t. (t_id t, t)) (c_active channel @ c_archived channel)))), w2)))"

definition syncChannelThreads :: "(thread_channel \<Rightarrow> SyncStats \<Rightarrow> world \<Rightarrow> (js_error + unit) \<times> SyncStats \<times> world) \<Rightarrow> forum_channel \<Rightarrow> SyncStats \<Rightarrow> world \<Rightarrow> SyncStats \<times> world" where
  "syncChannelThreads syncThread channel stats w =
     (case fetch_threads channel w of
        (None, w1) \<Rightarrow> (count_error stats, w1)
      | (Some allThreads, w1) \<Rightarrow> syncThreads syncThread allThreads stats w1)"

text \<open>\<open>syncGuildFull\<close> and \<open>syncGuildDelta\<close>: the forum channels (type 15) of the guild.\<close>

fun syncChannels :: "(thread_channel \<Rightarrow> SyncStats \<Rightarrow> world \<Rightarrow> (js_error + unit) \<times> SyncStats \<times> world) \<Rightarrow> forum_channel list \<Rightarrow> SyncStats \<Rightarrow> world \<Rightarrow> SyncStats \<times> world" where
  "syncChannels syncThread [] stats w = (stats, w)"
| "syncChannels syncThread (channel # rest) stats w =
     (case upsertChannel channel w of
        (Inl e, w1) \<Rightarrow> syncChannels syncThread rest (count_error stats) w1
      | (Inr u, w1) \<Rightarrow>
          (case syncChannelThreads syncThread channel stats w1 of (stats1, w2) \<Rightarrow>
             syncChannels syncThread rest (stats1\<lparr>channelsProcessed := channelsProcessed stats1 + 1\<rparr>) w2))"

definition syncGuild :: "(thread_channel \<Rightarrow> SyncStats \<Rightarrow> world \<Rightarrow> (js_error + unit) \<times> SyncStats \<times> world) \<Rightarrow> guild \<Rightarrow> SyncStats \<Rightarrow> world \<Rightarrow> SyncStats \<times> world" where
  "syncGuild syncThread g stats w =
     syncChannels syncThread (filter (\<lambda>c. c_kind c = 15) (g_channels g)) stats w"

fun syncGuilds :: "(thread_channel \<Rightarrow> SyncStats \<Rightarrow> world \<Rightarrow> (js_error + unit) \<times> SyncStats \<times> world) \<Rightarrow> guild list \<Rightarrow> SyncStats \<Rightarrow> world \<Rightarrow> SyncStats \<times> world" where
  "syncGuilds syncThread [] stats w = (stats, w)"
| "syncGuilds syncThread (g # rest) stats w =
     (case syncGuild syncThread g stats w of (stats1, w1) \<Rightarrow>
        syncGuilds syncThread rest (stats1\<lparr>guildsProcessed := guildsProcessed stats1 + 1\<rparr>) w1)"

definition runFullSync :: "process_env \<Rightarrow> guild list \<Rightarrow> SyncStats \<Rightarrow> world \<Rightarrow> SyncStats \<times> world" where
  "runFullSync env client stats w = syncGuilds (syncThreadFull env) client stats w"

text \<open>\<open>runDeltaSync\<close> formats the date with \<open>toISOString\<close> in its first statement, which throws a
  \<open>RangeError\<close> on an invalid date.\<close>

definition runDeltaSync :: "process_env \<Rightarrow> guild list \<Rightarrow> SyncStats \<Rightarrow> nat option \<Rightarrow> world \<Rightarrow> (js_error + unit) \<times> SyncStats \<times> world" where
  "runDeltaSync env client stats lastSyncDate w =
     (case lastSyncDate of
        None \<Rightarrow> (Inl (RangeError ''Invalid time value''), stats, w)
      | Some since \<Rightarrow>
          (case syncGuilds (\<lambda>thread stats w. syncThreadDelta env thread stats since w) client stats w of
             (stats1, w1) \<Rightarrow> (Inr (), stats1, w1)))"

text \<open>The mode selection of \<open>smartSync\<close> and the traversal it starts:
  \<open>options.forceFull || syncState.is_first_run === 1\<close> selects the full mode. Reading
  \<open>is_first_run\<close> of a \<open>null\<close> state throws, unless \<open>forceFull\<close> already decided.\<close>

definition select_and_run :: "process_env \<Rightarrow> guild list \<Rightarrow> bool \<Rightarrow> SyncState option \<Rightarrow> SyncStats \<Rightarrow> world \<Rightarrow> (js_error + unit) \<times> SyncStats \<times> world" where
  "select_and_run env client forceFull syncState stats w =
     (if forceFull then
        (case runFullSync env client (stats\<lparr>mode := Full\<rparr>) w of (stats1, w1) \<Rightarrow> (Inr (), stats1, w1))
      else
        (case syncState of
           None \<Rightarrow> (Inl (TypeError ''Cannot read properties of null''), stats, w)
         | Some st \<Rightarrow>
             if is_first_run st = Some 1 then
               (case runFullSync env client (stats\<lparr>mode := Full\<rparr>) w of
                  (stats1, w1) \<Rightarrow> (Inr (), stats1, w1))
             else runDeltaSync env client (stats\<lparr>mode := Delta\<rparr>) (last_sync st) w))"

text \<open>\<open>smartSync\<close>. The start time is taken first and kept in the statistics; the cursor is
  written by \<open>updateSyncState\<close> after the traversal; every error is counted and thrown on.\<close>

definition smartSync :: "process_env \<Rightarrow> guild list \<Rightarrow> bool \<Rightarrow> world \<Rightarrow> (js_error + unit) \<times> SyncStats \<times> world" where
  "smartSync env client forceFull w =
     (let stats = \<lparr>mode = Full, guildsProcessed = 0, channelsProcessed = 0, threadsProcessed = 0,
                   postsProcessed = 0, errorsEncountered = 0, startTime = clock w,
                   endTime = None, durationMs = None\<rparr> in
      case getSyncState w of (syncState, w1) \<Rightarrow>
      case select_and_run env client forceFull syncState stats w1 of
        (Inl e, stats1, w2) \<Rightarrow> (Inl e, count_error stats1, w2)
      | (Inr u, stats1, w2) \<Rightarrow>
          (case updateSyncState w2 of
             (Inl e, w3) \<Rightarrow> (Inl e, count_error stats1, w3)
           | (Inr u, w3) \<Rightarrow>
               (Inr (), stats1\<lparr>endTime := Some (clock w3),
                               durationMs := Some (clock w3 - startTime stats1)\<rparr>, w3)))"

section \<open>The historical sync (\<open>lib/sync.ts\<close>)\<close>

record HistStats =
  h_channelsProcessed :: nat
  h_threadsProcessed :: nat
  h_postsProcessed :: nat
  h_errorsEncountered :: nat
  h_startTime :: nat
  h_endTime :: "nat option"

text \<open>The alias of the referenced author, asked from the platform: a rejected fetch (and a
  throwing hash) is caught and leaves the alias \<open>null\<close>.\<close>

definition fetch_reference_alias :: "process_env \<Rightarrow> message \<Rightarrow> world \<Rightarrow> string option \<times> world" where
  "fetch_reference_alias env message w =
     (case request w of (ok, w1) \<Rightarrow>
        if \<not> ok then (None, w1)
        else (case m_ref_author message of
                None \<Rightarrow> (None, w1)
              | Some author \<Rightarrow>
                  (case hashUserId env author of Inl e \<Rightarrow> (None, w1) | Inr a \<Rightarrow> (Some a, w1))))"

text \<open>The reply context of \<open>syncMessage\<close>: the reference is kept when a post with that id is in
  the table, with the alias the platform gave; it is cleared when no such post is stored or the
  lookup fails.\<close>

definition reply_context :: "process_env \<Rightarrow> message \<Rightarrow> world \<Rightarrow> (snowflake option \<times> string option) \<times> world" where
  "reply_context env message w =
     (case reference_of message of
        None \<Rightarrow> ((None, None), w)
      | Some replyToId \<Rightarrow>
          (case fetch_reference_alias env message w of (replyToAuthorAlias, w1) \<Rightarrow>
           case request w1 of (ok, w2) \<Rightarrow>
             if \<not> ok then ((None, None), w2)
             else (case find_post w2 replyToId of
                     None \<Rightarrow> ((None, None), w2)
                   | Some existingPost \<Rightarrow> ((Some replyToId, replyToAuthorAlias), w2))))"

definition syncMessage :: "process_env \<Rightarrow> message \<Rightarrow> HistStats \<Rightarrow> world \<Rightarrow> (js_error + unit) \<times> HistStats \<times> world" where
  "syncMessage env message stats w =
     (case hashUserId env (m_author message) of
        Inl e \<Rightarrow> (Inl e, stats, w)
      | Inr authorAlias \<Rightarrow>
          (case reply_context env message w of ((replyToId, replyToAuthorAlias), w1) \<Rightarrow>
           case request w1 of (ok, w2) \<Rightarrow>
             if \<not> ok then (Inl query_failed, stats, w2)
             else (case insert_post (m_id message)
                          \<lparr>p_thread_id = m_channel message, p_author_alias = authorAlias,
                           p_body_html = content_html message,
                           p_reply_to_id = replyToId, p_reply_to_author_alias = replyToAuthorAlias,
                           p_created_at = m_created message,
                           p_updated_at = edited_or_created message\<rparr> w2 of
                     (Inl e, w3) \<Rightarrow> (Inl e, stats, w3)
                   | (Inr u, w3) \<Rightarrow>
                       (Inr (), stats\<lparr>h_postsProcessed := h_postsProcessed stats + 1\<rparr>, w3))))"

text \<open>\<open>updateReplyReferences\<close>: only a stored post whose \<open>reply_to_id\<close> is \<open>NULL\<close> is repaired, and
  only when the referent is in the table by now.\<close>

definition updateReplyReferences :: "message \<Rightarrow> world \<Rightarrow> (js_error + unit) \<times> world" where
  "updateReplyReferences message w =
     (case reference_of message of
        None \<Rightarrow> (Inr (), w)
      | Some replyToId \<Rightarrow>
          (case request w of (ok, w1) \<Rightarrow>
             if \<not> ok then (Inl query_failed, w1)
             else (case find_post w1 (m_id message) of
                     None \<Rightarrow> (Inr (), w1)
                   | Some currentPost \<Rightarrow>
                       if p_reply_to_id currentPost \<noteq> None then (Inr (), w1)
                       else (case request w1 of (ok2, w2) \<Rightarrow>
                               if \<not> ok2 then (Inl query_failed, w2)
                               else (case find_post w2 replyToId of
                                       None \<Rightarrow> (Inr (), w2)
                                     | Some referencedPost \<Rightarrow>
                                         (case request w2 of (ok3, w3) \<Rightarrow>
                                            if \<not> ok3 then (Inl query_failed, w3)
                                            else (Inr (),
                                                  w3\<lparr>posts := update_reply (m_id message) replyToId
                                                       (p_author_alias referencedPost) (clock w2)
                                                       (posts w3)\<rparr>)))))))"

text \<open>The first pass: a message that throws is counted as an error, the others are counted in
  \<open>postCount\<close>.\<close>

fun syncMessages :: "process_env \<Rightarrow> message list \<Rightarrow> nat \<Rightarrow> HistStats \<Rightarrow> world \<Rightarrow> nat \<times> HistStats \<times> world" where
  "syncMessages env [] postCount stats w = (postCount, stats, w)"
| "syncMessages env (message # rest) postCount stats w =
     (case syncMessage env message stats w of
        (Inl e, stats1, w1) \<Rightarrow>
          syncMessages env rest postCount
            (stats1\<lparr>h_errorsEncountered := h_errorsEncountered stats1 + 1\<rparr>) w1
      | (Inr u, stats1, w1) \<Rightarrow> syncMessages env rest (postCount + 1) stats1 w1)"

text \<open>The second pass: an error of \<open>updateReplyReferences\<close> is logged and nothing else.\<close>

fun updateReferences :: "message list \<Rightarrow> world \<Rightarrow> world" where
  "updateReferences [] w = w"
| "updateReferences (message # rest) w =
     (if reference_of message \<noteq> None
      then updateReferences rest (snd (updateReplyReferences message w))
      else updateReferences rest w)"

definition tag_names :: "thread_channel \<Rightarrow> string list option" where
  "tag_names thread =
     (if t_applied_tags thread = [] then None
      else Some (filter (\<lambda>n. n \<noteq> [])
             (map (\<lambda>tagId. case map_of (t_available_tags thread) tagId of
                              None \<Rightarrow> tagId
                            | Some name \<Rightarrow> if name = [] then tagId else name)
                  (t_applied_tags thread))))"

text \<open>The messages of the two passes: without the starter and the bots, oldest first.\<close>

definition reply_messages :: "message \<Rightarrow> (snowflake \<times> message) list \<Rightarrow> message list" where
  "reply_messages starterMessage messages =
     sort_key m_created
       (filter (\<lambda>msg. m_id msg \<noteq> m_id starterMessage \<and> \<not> m_bot msg) (map snd messages))"

text \<open>The thread row of \<open>syncSpecificThread\<close>: \<open>INSERT INTO threads ... ON DUPLICATE KEY UPDATE
  title, body_html, tags, updated_at\<close>.\<close>

definition store_thread :: "thread_channel \<Rightarrow> message \<Rightarrow> string \<Rightarrow> nat \<Rightarrow> world \<Rightarrow> (js_error + unit) \<times> world" where
  "store_thread thread starterMessage authorAlias now w =
     insert_thread (t_id thread)
       \<lparr>th_channel_id = t_parent thread,
        th_slug = syncSpecificThread_slug (t_name thread),
        th_title = t_name thread, th_author_alias = authorAlias,
        th_body_html = content_html starterMessage,
        th_tags = tag_names thread, th_reply_count = 0,
        th_created_at = m_created starterMessage, th_updated_at = now\<rparr>
       (\<lambda>old. old\<lparr>th_title := t_name thread,
                   th_body_html := content_html starterMessage,
                   th_tags := tag_names thread, th_updated_at := now\<rparr>) w"

text \<open>The part of \<open>syncSpecificThread\<close> behind the hashing of the starter's author: the
  thread row is written, the messages are fetched, both passes run, and the reply count is set
  to \<open>postCount\<close>.\<close>

definition reconcile_thread :: "process_env \<Rightarrow> thread_channel \<Rightarrow> message \<Rightarrow> string \<Rightarrow> HistStats \<Rightarrow> world \<Rightarrow> (js_error + unit) \<times> HistStats \<times> world" where
  "reconcile_thread env thread starterMessage authorAlias stats w2 =
     (case request w2 of (ok3, w3) \<Rightarrow>
        if \<not> ok3 then (Inl query_failed, stats, w3)
        else
          (case store_thread thread starterMessage authorAlias (clock w2) w3 of
             (Inl e, w4) \<Rightarrow> (Inl e, stats, w4)
           | (Inr u, w4) \<Rightarrow>
               (case fetchAllMessages thread w4 of (messages, w5) \<Rightarrow>
                case syncMessages env (reply_messages starterMessage messages) 0
                       (stats\<lparr>h_threadsProcessed := h_threadsProcessed stats + 1\<rparr>) w5 of
                  (postCount, stats2, w6) \<Rightarrow>
                case request (updateReferences (reply_messages starterMessage messages) w6) of
                  (ok4, w8) \<Rightarrow>
                    if \<not> ok4 then (Inl query_failed, stats2, w8)
                    else (Inr (), stats2, set_reply_count (t_id thread) (int postCount) w8))))"

text \<open>\<open>syncSpecificThread\<close>. The thread is what the channel cache holds for the id (\<open>None\<close>: no
  thread of that id). With \<open>skipExisting\<close> a stored thread is left alone; a thread without a
  starter message, or with a bot's, is left alone too.\<close>

definition syncSpecificThread :: "process_env \<Rightarrow> thread_channel option \<Rightarrow> bool \<Rightarrow> HistStats \<Rightarrow> world \<Rightarrow> (js_error + unit) \<times> HistStats \<times> world" where
  "syncSpecificThread env cached skipExisting stats w =
     (case cached of
        None \<Rightarrow> (Inl (Error ''Thread not found''), stats, w)
      | Some thread \<Rightarrow>
          (case (if skipExisting
                 then (case request w of (ok, w1) \<Rightarrow>
                         if \<not> ok then (Inl query_failed, w1)
                         else (Inr (find_thread w1 (t_id thread) \<noteq> None), w1))
                 else (Inr False, w)) of
             (Inl e, w1) \<Rightarrow> (Inl e, stats, w1)
           | (Inr existing, w1) \<Rightarrow>
               if existing then (Inr (), stats, w1)
               else
                 (case request w1 of (ok, w2) \<Rightarrow>
                    if \<not> ok then (Inl (Error ''fetch failed''), stats, w2)
                    else (case t_starter thread of
                            None \<Rightarrow> (Inr (), stats, w2)
                          | Some starterMessage \<Rightarrow>
                              if m_bot starterMessage then (Inr (), stats, w2)
                              else (case hashUserId env (m_author starterMessage) of
                                      Inl e \<Rightarrow> (Inl e, stats, w2)
                                    | Inr authorAlias \<Rightarrow>
                                        reconcile_thread env thread starterMessage authorAlias
                                          stats w2)))))"

text \<open>The collection \<open>fetchAllMessages\<close> builds when no fetch fails: the batches up to the first
  empty one.\<close>

fun collect_batches :: "message list list \<Rightarrow> (snowflake \<times> message) list \<Rightarrow> (snowflake \<times> message) list" where
  "collect_batches [] messages = messages"
| "collect_batches (batch # rest) messages =
     (if batch = [] then messages
      else collect_batches rest (foldl coll_set messages (map (\<lambda>m. (m_id m, m)) batch)))"

definition no_faults :: "world \<Rightarrow> bool" where
  "no_faults w = list_all (\<lambda>step. \<not> fst step) (script w)"

section \<open>Notions used in the proofs about the sanitizer\<close>

text \<open>A state reached by matching lies behind the state the matching started from: a part
  \<open>u\<close> of the text was passed, and the capture is the old one or a part of \<open>u\<close>.\<close>

definition reaches :: "mstate \<Rightarrow> mstate \<Rightarrow> bool" where
  "reaches st st' =
     (\<exists>u. fst (snd st) = u @ fst (snd st') \<and> fst st' = rev u @ fst st
        \<and> (snd (snd st') = snd (snd st) \<or> (\<exists>g p q. snd (snd st') = Some g \<and> u = p @ g @ q)))"

text \<open>An expression that cannot match without passing a character of the class \<open>B\<close>.\<close>

fun needs_char :: "(char \<Rightarrow> bool) \<Rightarrow> regex \<Rightarrow> bool" where
  "needs_char B (Atom p) = (\<forall>c. p c \<longrightarrow> B c)"
| "needs_char B (Seq r1 r2) = (needs_char B r1 \<or> needs_char B r2)"
| "needs_char B (Alt r1 r2) = (needs_char B r1 \<and> needs_char B r2)"
| "needs_char B (Group r) = needs_char B r"
| "needs_char B r = False"

text \<open>The characters some expression of the pipeline starts from or cannot do without, and
  the texts free of them.\<close>

definition is_markup :: "char \<Rightarrow> bool" where
  "is_markup c = (c \<in> set ''<:=@*~'' \<or> c = CHR 0x60 \<or> c = CHR 0x0A \<or> is_digit c)"


section \<open>A small forum for the examples\<close>

text \<open>One guild with one forum channel and one thread: the starter message and one reply, by the
  same author, fetched in one batch. The pepper is \<open>c\<close> and the author's id \<open>ab\<close>, so the alias
  is the head of the SHA-256 test vector for \<open>abc\<close>.\<close>

definition env0 :: process_env where
  "env0 = (\<lambda>k. if k = ''PII_PEPPER'' then Some ''c'' else None)"

definition starter0 :: message where
  "starter0 = \<lparr>m_id = ''10'', m_channel = ''10'', m_author = ''ab'', m_bot = False,
     m_content = [], m_attachments = [], m_images = [], m_reference = None, m_ref_author = None,
     m_created = 5, m_edited = None\<rparr>"

definition reply0 :: message where
  "reply0 = \<lparr>m_id = ''11'', m_channel = ''10'', m_author = ''ab'', m_bot = False,
     m_content = [], m_attachments = [], m_images = [], m_reference = None, m_ref_author = None,
     m_created = 6, m_edited = None\<rparr>"

definition thread0 :: thread_channel where
  "thread0 = \<lparr>t_id = ''10'', t_parent = ''1'', t_name = ''q'', t_owner = Some ''ab'',
     t_applied_tags = [], t_available_tags = [], t_created = 5, t_starter = Some starter0,
     t_pages = [[reply0, starter0]], t_after = (\<lambda>since. [])\<rparr>"

definition channel0 :: forum_channel where
  "channel0 = \<lparr>c_id = ''1'', c_kind = 15, c_name = ''g'', c_topic = None, c_position = 0,
     c_created = 1, c_active = [thread0], c_archived = []\<rparr>"

definition guild0 :: guild where
  "guild0 = \<lparr>g_id = ''0'', g_name = ''g'', g_channels = [channel0]\<rparr>"

text \<open>An empty store at time 1000 whose cursor row is as the migration left it; every request
  succeeds and takes no time.\<close>

definition world0 :: world where
  "world0 = \<lparr>posts = [], threads = [], channels = Map.empty,
     config = [''sync_state'' \<mapsto> JsonState default_state], staff_roles = Map.empty,
     script = [], clock = 1000\<rparr>"

definition hstats0 :: HistStats where
  "hstats0 = \<lparr>h_channelsProcessed = 0, h_threadsProcessed = 0, h_postsProcessed = 0,
     h_errorsEncountered = 0, h_startTime = 1000, h_endTime = None\<rparr>"

text \<open>The same store without the cursor row.\<close>

definition world_no_row :: world where
  "world_no_row = world0\<lparr>config := Map.empty\<rparr>"

text \<open>The same store with a cursor row whose value is the JSON \<open>null\<close>.\<close>

definition world_null :: world where
  "world_null = world0\<lparr>config := [''sync_state'' \<mapsto> JsonNull]\<rparr>"

text \<open>Statistics of a smart-sync run that starts at time 1000.\<close>

definition sstats0 :: SyncStats where
  "sstats0 = \<lparr>mode = Full, guildsProcessed = 0, channelsProcessed = 0, threadsProcessed = 0,
     postsProcessed = 0, errorsEncountered = 0, startTime = 1000, endTime = None,
     durationMs = None\<rparr>"

text \<open>The store after the channel has been written, with no thread yet.\<close>

definition world_ch :: world where
  "world_ch = world0\<lparr>channels := [''1'' \<mapsto> \<lparr>ch_slug = ''g'', ch_name = ''g'',
     ch_description = Some [], ch_position = 0, ch_created_at = 1\<rparr>]\<rparr>"

text \<open>The thread above when the platform is asked for the messages after a time: both
  messages are new.\<close>

definition thread2 :: thread_channel where
  "thread2 = thread0\<lparr>t_after := (\<lambda>since. [reply0, starter0])\<rparr>"

text \<open>A store that holds, from an earlier run, the thread and a post \<open>9\<close> in it. Since then
  the message \<open>9\<close> has been deleted on the platform, and a new message \<open>11\<close> replies to it: the
  platform still reports the reference, and rejects the fetch of the message \<open>9\<close>.\<close>

definition reply1 :: message where
  "reply1 = \<lparr>m_id = ''11'', m_channel = ''10'', m_author = ''ab'', m_bot = False,
     m_content = [], m_attachments = [], m_images = [], m_reference = Some ''9'',
     m_ref_author = None, m_created = 7, m_edited = None\<rparr>"

definition thread1 :: thread_channel where
  "thread1 = \<lparr>t_id = ''10'', t_parent = ''1'', t_name = ''q'', t_owner = Some ''ab'',
     t_applied_tags = [], t_available_tags = [], t_created = 5, t_starter = Some starter0,
     t_pages = [[reply1, starter0]], t_after = (\<lambda>since. [reply1])\<rparr>"

definition post9 :: post_row where
  "post9 = \<lparr>p_thread_id = ''10'', p_author_alias = ''0123456789ab'', p_body_html = [],
     p_reply_to_id = None, p_reply_to_author_alias = None, p_created_at = 6, p_updated_at = 6\<rparr>"

definition row10 :: thread_row where
  "row10 = \<lparr>th_channel_id = ''1'', th_slug = ''q'', th_title = ''q'',
     th_author_alias = ''ba7816bf8f01'', th_body_html = [], th_tags = None, th_reply_count = 1,
     th_created_at = 5, th_updated_at = 900\<rparr>"

definition world1 :: world where
  "world1 = world_ch\<lparr>posts := [(''9'', post9)], threads := [(''10'', row10)]\<rparr>"

chapter \<open>Properties\<close>

section \<open>Evaluating SHA-256\<close>

lemma schedule_numeral:
  "schedule (numeral k) ws =
     schedule (pred_numeral k)
       (((ssig1 (ws ! 1) + ws ! 6 + ssig0 (ws ! 14) + ws ! 15) mod 2 ^ 32) # ws)"
  by (simp only: numeral_eq_Suc [of k] schedule.simps)

lemma chunks_numeral:
  "chunks (numeral n) k xs = take k xs # chunks (pred_numeral n) k (drop k xs)"
  by (simp only: numeral_eq_Suc [of n] chunks.simps)

lemma replicate_numeral_unfold:
  "replicate (numeral n) x = x # replicate (pred_numeral n) x"
  by (simp only: numeral_eq_Suc [of n] replicate.simps)

lemmas sha_eval = sha256_hex_def utf8_def utf8_unit_def sha256_def pad_def compress_def
  hex32_def hexdigit_def
  K256_def H0_def rotr_def Ch_def Maj_def bsig0_def bsig1_def ssig0_def ssig1_def
  schedule_numeral chunks_numeral replicate_numeral_unfold

text \<open>The test vector of FIPS 180-4 for the one-block message \<open>abc\<close>.\<close>

lemma sha256_abc:
  "sha256_hex ''abc'' = ''ba7816bf8f01cfea414140de5dae2223b00361a396177a9cb410ff61f20015ad''"
  by (simp add: sha_eval)

lemma sha256_abd_prefix: "take 12 (sha256_hex ''abd'') = ''a52d159f262b''"
  by (simp add: sha_eval)

text \<open>A message outside ASCII: \<open>ab\<close> followed by the code unit 0xE9 is hashed as the four
  bytes 61 62 C3 A9.\<close>

lemma sha256_latin1_prefix: "take 12 (sha256_hex (''ab'' @ [CHR 0xE9])) = ''0c69f3d5a35b''"
  by (simp add: sha_eval)

text \<open>The digest has 64 hexadecimal characters whatever the message.\<close>

lemma length_step2: "length s = 7 \<Longrightarrow> length (step2 t1 t2 s) = 8"
  by (cases "(t1, t2, s)" rule: step2.cases) auto

lemma length_round256: "length s = 8 \<Longrightarrow> length (round256 s kw) = 8"
  by (cases "(s, kw)" rule: round256.cases) (auto simp: length_step2)

lemma length_foldl_round256: "length s = 8 \<Longrightarrow> length (foldl round256 s kws) = 8"
  by (induction kws arbitrary: s) (auto simp: length_round256)

lemma length_compress: "length hs = 8 \<Longrightarrow> length (compress hs blk) = 8"
  by (simp add: compress_def length_foldl_round256)

lemma length_foldl_compress: "length hs = 8 \<Longrightarrow> length (foldl compress hs blks) = 8"
  by (induction blks arbitrary: hs) (auto simp: length_compress)

lemma length_sha256: "length (sha256 m) = 8"
  by (simp add: sha256_def length_foldl_compress H0_def)

lemma length_concat_hex32: "length (concat (map hex32 ws)) = 8 * length ws"
  by (induction ws) (auto simp: hex32_def)

lemma length_sha256_hex: "length (sha256_hex s) = 64"
  by (simp add: sha256_hex_def length_concat_hex32 length_sha256)

lemma substring_0: "substring s 0 n = take n s"
  by (cases "n \<le> length s") (simp_all add: substring_def min_def)

section \<open>The identity hasher\<close>

lemma hashUserId_Some:
  "env ''PII_PEPPER'' = Some pepper \<Longrightarrow> pepper \<noteq> [] \<Longrightarrow>
     hashUserId env uid = Inr (take 12 (sha256_hex (uid @ pepper)))"
  by (simp add: hashUserId_def substring_0)

lemma hashUserId_missing:
  "env ''PII_PEPPER'' = None \<Longrightarrow> \<exists>e. hashUserId env uid = Inl e"
  by (simp add: hashUserId_def)

text \<open>
  Claim C5. With the pepper fixed (present and not empty), \<open>hashUserId\<close> returns the first 12
  hexadecimal characters of SHA-256 of the user id followed by the pepper; the result depends on
  nothing but the pepper and the id, so any two processes with the same pepper compute the same
  alias; the alias has exactly 12 characters; and there is a user id whose alias changes when the
  pepper changes.
\<close>

theorem hashUserId_alias:
  "env ''PII_PEPPER'' = Some pepper \<and> pepper \<noteq> [] \<longrightarrow>
     hashUserId env uid = Inr (alias_spec pepper uid)
     \<and> (\<forall>env'. env' ''PII_PEPPER'' = Some pepper \<longrightarrow> hashUserId env' uid = hashUserId env uid)
     \<and> length (alias_spec pepper uid) = 12
     \<and> (\<exists>uid' env1 env2 a1 a2.
            hashUserId env1 uid' = Inr a1 \<and> hashUserId env2 uid' = Inr a2 \<and> a1 \<noteq> a2)"
proof (intro impI conjI allI)
  assume p: "env ''PII_PEPPER'' = Some pepper \<and> pepper \<noteq> []"
  then show "hashUserId env uid = Inr (alias_spec pepper uid)"
    by (simp add: hashUserId_Some alias_spec_def)
  show "length (alias_spec pepper uid) = 12"
    by (simp add: alias_spec_def length_sha256_hex)
  show "hashUserId env' uid = hashUserId env uid" if "env' ''PII_PEPPER'' = Some pepper" for env'
    using p that by (simp add: hashUserId_Some)
  have 1: "hashUserId (\<lambda>k. if k = ''PII_PEPPER'' then Some ''c'' else None) ''ab''
             = Inr ''ba7816bf8f01''"
    using sha256_abc by (simp add: hashUserId_def substring_0)
  have 2: "hashUserId (\<lambda>k. if k = ''PII_PEPPER'' then Some ''d'' else None) ''ab''
             = Inr ''a52d159f262b''"
    using sha256_abd_prefix by (simp add: hashUserId_def substring_0)
  have "''ba7816bf8f01'' \<noteq> ''a52d159f262b''" by simp
  with 1 2 show "\<exists>uid' env1 env2 a1 a2.
      hashUserId env1 uid' = Inr a1 \<and> hashUserId env2 uid' = Inr a2 \<and> a1 \<noteq> a2"
    by blast
qed

theorem hashUserId_alias_witness:
  "hashUserId (\<lambda>k. if k = ''PII_PEPPER'' then Some ''c'' else None) ''ab'' = Inr ''ba7816bf8f01''
   \<and> length ''ba7816bf8f01'' = (12::nat)"
  using hashUserId_alias [of "\<lambda>k. if k = ''PII_PEPPER'' then Some ''c'' else None" "''c''" "''ab''"]
    sha256_abc
  by (simp add: alias_spec_def)

section \<open>Start-up and the pepper\<close>

lemma import_staff_no_pepper:
  "env ''PII_PEPPER'' = None \<Longrightarrow> import_staff env rows staff = staff"
  by (induction rows arbitrary: staff) (auto simp: hashUserId_def)

text \<open>The exit state of \<open>main\<close> does not depend on \<open>PII_PEPPER\<close>: no step of the start-up
  reads it except the per-record hashing of the staff import, whose failure is caught.\<close>

lemma main_exit_independent_of_pepper:
  "fst (main (env(''PII_PEPPER'' := p)) b staff) = fst (main env b staff)"
  by (auto simp: main_def loadStaffFromCSV_def split: option.splits sum.splits)

text \<open>
  Claim C6 (the code departs from it). With \<open>PII_PEPPER\<close> absent and every start-up step
  succeeding, \<open>main\<close> reaches the serving state: nothing exits at start-up. The missing pepper
  shows only when a user id is hashed, where \<open>hashUserId\<close> throws.
\<close>

theorem main_starts_without_pepper:
  "main (\<lambda>k. None)
      \<lparr>metrics_throws = False, database_throws = False, csv_exists = False,
       csv_stream_error = False, csv_rows = [], load_commands_throws = False,
       login_throws = False\<rparr> Map.empty = (Serving, Map.empty)
   \<and> validatePepper (\<lambda>k. None) = Inl (Error ''PII_PEPPER environment variable is required'')
   \<and> hashUserId (\<lambda>k. None) ''100000000000000001''
        = Inl (Error ''PII_PEPPER environment variable is required'')"
  by (simp add: main_def validatePepper_def hashUserId_def)


section \<open>Slugs\<close>

lemma syncSpecificThread_slug_example:
  "syncSpecificThread_slug ''How do I X?'' = ''how-do-i-x''
   \<and> syncSpecificThread_slug ''  --C++ & Rust--  '' = ''c-rust''"
  by code_simp

text \<open>
  Claim C9 (the code departs from it on the \<open>upsertThread\<close> path). The thread title \<open>-a\<close> gets
  the slug \<open>-a\<close> from \<open>upsertThread\<close>, which starts with a hyphen and so does not have the
  promised shape; the sibling expression of \<open>syncSpecificThread\<close> removes the hyphen.
\<close>

theorem upsertThread_slug_leading_hyphen:
  "upsertThread_slug ''-a'' = ''-a'' \<and> \<not> slug_ok ''-a''
   \<and> syncSpecificThread_slug ''-a'' = ''a'' \<and> slug_ok ''a''"
  by code_simp

section \<open>The cursor\<close>

lemma request_config [simp]: "config (snd (request w)) = config w"
  by (simp add: request_def split: list.splits prod.splits)

lemma sleep_config [simp]: "config (sleep n w) = config w"
  by (simp add: sleep_def)

lemma insert_thread_config [simp]: "config (snd (insert_thread i new f w)) = config w"
  by (simp add: insert_thread_def split: option.splits)

lemma insert_post_config [simp]: "config (snd (insert_post i new w)) = config w"
  by (simp add: insert_post_def)

lemma getStaffTag_config [simp]: "config (snd (getStaffTag env u w)) = config w"
  by (simp add: getStaffTag_def split_beta split: sum.splits option.splits)

lemma starter_body_config [simp]: "config (snd (starter_body t w)) = config w"
  by (simp add: starter_body_def split_beta split: option.splits)

lemma upsertThread_config [simp]: "config (snd (upsertThread env t w)) = config w"
  by (simp add: upsertThread_def split_beta Let_def split: sum.splits)

lemma lookup_reply_config [simp]: "config (snd (lookup_reply ref w)) = config w"
  by (simp add: lookup_reply_def split_beta split: option.splits)

lemma upsertPost_config [simp]: "config (snd (snd (upsertPost env m stats w))) = config w"
  by (simp add: upsertPost_def split_beta split: sum.splits)

lemma upsertPosts_config [simp]: "config (snd (upsertPosts env ms stats w)) = config w"
  by (induction ms arbitrary: stats w) (simp_all add: split_beta split: sum.splits)

lemma fetch_batches_config [simp]: "config (snd (fetch_batches pages acc w)) = config w"
  by (induction pages arbitrary: acc w) (simp_all add: split_beta)

lemma set_reply_count_config [simp]: "config (set_reply_count t n w) = config w"
  by (simp add: set_reply_count_def split: option.splits)

lemma updateThreadReplyCount_config [simp]:
  "config (snd (updateThreadReplyCount t w)) = config w"
  by (simp add: updateThreadReplyCount_def split_beta)

lemma syncThreadFull_config [simp]:
  "config (snd (snd (syncThreadFull env t stats w))) = config w"
  by (simp add: syncThreadFull_def fetchAllMessages_def split_beta split: sum.splits)

lemma syncThreadDelta_config [simp]:
  "config (snd (snd (syncThreadDelta env t stats since w))) = config w"
  by (simp add: syncThreadDelta_def split_beta split: sum.splits)

lemma syncThreads_config:
  assumes f: "\<And>t s w. config (snd (snd (f t s w))) = config w"
  shows "config (snd (syncThreads f ts stats w)) = config w"
  by (induction ts arbitrary: stats w) (simp_all add: split_beta f split: sum.splits)

lemma fetch_threads_config [simp]: "config (snd (fetch_threads c w)) = config w"
  by (simp add: fetch_threads_def split_beta)

lemma syncChannelThreads_config:
  assumes f: "\<And>t s w. config (snd (snd (f t s w))) = config w"
  shows "config (snd (syncChannelThreads f c stats w)) = config w"
  by (simp add: syncChannelThreads_def split_beta syncThreads_config [OF f] split: option.splits)

lemma upsertChannel_config [simp]: "config (snd (upsertChannel c w)) = config w"
  by (simp add: upsertChannel_def split_beta Let_def)

lemma syncChannels_config:
  assumes f: "\<And>t s w. config (snd (snd (f t s w))) = config w"
  shows "config (snd (syncChannels f cs stats w)) = config w"
  by (induction cs arbitrary: stats w)
     (simp_all add: split_beta syncChannelThreads_config [OF f] split: sum.splits)

lemma syncGuilds_config:
  assumes f: "\<And>t s w. config (snd (snd (f t s w))) = config w"
  shows "config (snd (syncGuilds f gs stats w)) = config w"
  by (induction gs arbitrary: stats w)
     (simp_all add: split_beta syncGuild_def syncChannels_config [OF f])

lemma runFullSync_config [simp]: "config (snd (runFullSync env client stats w)) = config w"
  by (simp add: runFullSync_def syncGuilds_config)

lemma runDeltaSync_config [simp]:
  "config (snd (snd (runDeltaSync env client stats since w))) = config w"
  by (simp add: runDeltaSync_def split_beta syncGuilds_config split: option.splits)

lemma getSyncState_config [simp]: "config (snd (getSyncState w)) = config w"
  by (simp add: getSyncState_def split_beta split: option.splits config_value.splits)

text \<open>What \<open>updateSyncState\<close> does to the table: nothing when it throws; on success the row
  \<open>sync_state\<close>, where there is one, holds the time of the call and \<open>is_first_run = 0\<close>.\<close>

lemma updateSyncState_config:
  "config (snd (updateSyncState w)) =
     (case fst (updateSyncState w) of
        Inl e \<Rightarrow> config w
      | Inr u \<Rightarrow>
          (case config w ''sync_state'' of
             None \<Rightarrow> config w
           | Some old \<Rightarrow>
               (config w)(''sync_state'' \<mapsto> JsonState \<lparr>last_sync = Some (clock w), is_first_run = Some 0\<rparr>)))"
  by (simp add: updateSyncState_def split_beta Let_def split: option.splits)

lemma select_and_run_config [simp]:
  "config (snd (snd (select_and_run env client forceFull syncState stats w))) = config w"
  by (simp add: select_and_run_def split_beta split: option.splits)

text \<open>What a run does to the table \<open>config\<close>, by its outcome.\<close>

lemma smartSync_config:
  "(case smartSync env client forceFull w of
      (Inl e, stats, w') \<Rightarrow> config w' = config w
    | (Inr u, stats, w') \<Rightarrow>
        (case config w ''sync_state'' of
           None \<Rightarrow> config w' = config w
         | Some old \<Rightarrow>
             (\<exists>t. config w' =
                (config w)(''sync_state'' \<mapsto> JsonState \<lparr>last_sync = Some t, is_first_run = Some 0\<rparr>))))"
proof -
  define stats0 where "stats0 = \<lparr>mode = Full, guildsProcessed = 0, channelsProcessed = 0,
     threadsProcessed = 0, postsProcessed = 0, errorsEncountered = 0, startTime = clock w,
     endTime = None, durationMs = None\<rparr>"
  define run where "run = select_and_run env client forceFull (fst (getSyncState w)) stats0
     (snd (getSyncState w))"
  define w2 where "w2 = snd (snd run)"
  have c2: "config w2 = config w"
    by (simp add: w2_def run_def)
  show ?thesis
  proof (cases "fst run")
    case (Inl e)
    then have "smartSync env client forceFull w = (Inl e, count_error (fst (snd run)), w2)"
      by (simp add: smartSync_def split_beta Let_def run_def stats0_def w2_def)
    then show ?thesis using c2 by simp
  next
    case (Inr u)
    show ?thesis
    proof (cases "fst (updateSyncState w2)")
      case (Inl e)
      then have "smartSync env client forceFull w =
          (Inl e, count_error (fst (snd run)), snd (updateSyncState w2))"
        using Inr by (simp add: smartSync_def split_beta Let_def run_def stats0_def w2_def)
      then show ?thesis
        using c2 Inl by (simp add: updateSyncState_config)
    next
      case up: (Inr u')
      then have "fst (smartSync env client forceFull w) = Inr ()"
        and "snd (snd (smartSync env client forceFull w)) = snd (updateSyncState w2)"
        using Inr by (simp_all add: smartSync_def split_beta Let_def run_def stats0_def w2_def)
      then show ?thesis
        using c2 up by (auto simp: updateSyncState_config split_beta split: option.splits)
    qed
  qed
qed

text \<open>
  Claim C2. The table \<open>config\<close> holds the cursor row \<open>sync_state\<close> (the migration inserts it
  and nothing deletes it). When \<open>smartSync\<close> throws, the table \<open>config\<close>, and with it the
  cursor row, is exactly what it was before the call, so the cursor moves only on a clean
  return. On a clean return the cursor row holds a time stamp and \<open>is_first_run = 0\<close>, and
  nothing else in the table has changed.
\<close>

theorem smartSync_cursor:
  "(fst (smartSync env client forceFull w) = Inl e \<longrightarrow>
      config (snd (snd (smartSync env client forceFull w))) = config w)
   \<and> (fst (smartSync env client forceFull w) = Inr u \<and> config w ''sync_state'' \<noteq> None \<longrightarrow>
      (\<exists>t. config (snd (snd (smartSync env client forceFull w))) =
         (config w)(''sync_state'' \<mapsto> JsonState \<lparr>last_sync = Some t, is_first_run = Some 0\<rparr>)))"
proof (intro conjI impI)
  assume "fst (smartSync env client forceFull w) = Inl e"
  with smartSync_config [where env = env and client = client and forceFull = forceFull and w = w]
  show "config (snd (snd (smartSync env client forceFull w))) = config w"
    by (simp add: split_beta)
next
  assume "fst (smartSync env client forceFull w) = Inr u \<and> config w ''sync_state'' \<noteq> None"
  with smartSync_config [where env = env and client = client and forceFull = forceFull and w = w]
  show "\<exists>t. config (snd (snd (smartSync env client forceFull w))) =
         (config w)(''sync_state'' \<mapsto> JsonState \<lparr>last_sync = Some t, is_first_run = Some 0\<rparr>)"
    by (auto simp: split_beta)
qed

section \<open>Mode selection\<close>

lemma upsertPost_mode [simp]: "mode (fst (snd (upsertPost env m stats w))) = mode stats"
  by (simp add: upsertPost_def split_beta split: sum.splits)

lemma upsertPosts_mode [simp]: "mode (fst (upsertPosts env ms stats w)) = mode stats"
  by (induction ms arbitrary: stats w) (simp_all add: split_beta count_error_def split: sum.splits)

lemma syncThreadFull_mode [simp]: "mode (fst (snd (syncThreadFull env t stats w))) = mode stats"
  by (simp add: syncThreadFull_def split_beta split: sum.splits)

lemma syncThreads_mode:
  assumes f: "\<And>t s w. mode (fst (snd (f t s w))) = mode s"
  shows "mode (fst (syncThreads f ts stats w)) = mode stats"
  by (induction ts arbitrary: stats w) (simp_all add: split_beta count_error_def f split: sum.splits)

lemma syncChannels_mode:
  assumes f: "\<And>t s w. mode (fst (snd (f t s w))) = mode s"
  shows "mode (fst (syncChannels f cs stats w)) = mode stats"
  by (induction cs arbitrary: stats w)
     (simp_all add: split_beta count_error_def syncChannelThreads_def syncThreads_mode [OF f]
        split: sum.splits option.splits)

lemma syncGuilds_mode:
  assumes f: "\<And>t s w. mode (fst (snd (f t s w))) = mode s"
  shows "mode (fst (syncGuilds f gs stats w)) = mode stats"
  by (induction gs arbitrary: stats w)
     (simp_all add: split_beta syncGuild_def syncChannels_mode [OF f])

lemma runFullSync_mode [simp]: "mode (fst (runFullSync env client stats w)) = mode stats"
  by (simp add: runFullSync_def syncGuilds_mode)

lemma getSyncState_default:
  "\<not> fst (request w) \<or> config w ''sync_state'' = None \<Longrightarrow>
     fst (getSyncState w) = Some default_state"
  by (auto simp: getSyncState_def split_beta)

text \<open>
  Claim C10. When the query for the row \<open>sync_state\<close> fails, or the table has no such row,
  \<open>getSyncState\<close> throws nothing and returns the default state \<open>{epoch, 1}\<close>. With it
  \<open>smartSync\<close> selects the full mode whatever \<open>forceFull\<close> is: the run is the traversal
  \<open>runFullSync\<close> over all guilds, with \<open>mode = full\<close> in the statistics, started in the world
  the failed read left, followed by \<open>updateSyncState\<close>; the read has no part in whether the run
  throws.
\<close>

theorem getSyncState_failure_selects_full:
  "\<not> fst (request w) \<or> config w ''sync_state'' = None \<longrightarrow>
     getSyncState w = (Some default_state, snd (request w))
     \<and> smartSync env client forceFull w =
         (case runFullSync env client
                 \<lparr>mode = Full, guildsProcessed = 0, channelsProcessed = 0, threadsProcessed = 0,
                  postsProcessed = 0, errorsEncountered = 0, startTime = clock w,
                  endTime = None, durationMs = None\<rparr> (snd (request w)) of
            (stats1, w2) \<Rightarrow>
              (case updateSyncState w2 of
                 (Inl e, w3) \<Rightarrow> (Inl e, count_error stats1, w3)
               | (Inr u, w3) \<Rightarrow>
                   (Inr (), stats1\<lparr>endTime := Some (clock w3),
                                   durationMs := Some (clock w3 - startTime stats1)\<rparr>, w3)))
     \<and> mode (fst (snd (smartSync env client forceFull w))) = Full"
proof
  assume a: "\<not> fst (request w) \<or> config w ''sync_state'' = None"
  have d: "getSyncState w = (Some default_state, snd (request w))"
    using a by (auto simp: getSyncState_def split_beta)
  have sel: "select_and_run env client forceFull (Some default_state) s v
           = (Inr (), runFullSync env client (s\<lparr>mode := Full\<rparr>) v)" for s v
    by (simp add: select_and_run_def default_state_def split_beta)
  have run: "smartSync env client forceFull w =
         (case runFullSync env client
                 \<lparr>mode = Full, guildsProcessed = 0, channelsProcessed = 0, threadsProcessed = 0,
                  postsProcessed = 0, errorsEncountered = 0, startTime = clock w,
                  endTime = None, durationMs = None\<rparr> (snd (request w)) of
            (stats1, w2) \<Rightarrow>
              (case updateSyncState w2 of
                 (Inl e, w3) \<Rightarrow> (Inl e, count_error stats1, w3)
               | (Inr u, w3) \<Rightarrow>
                   (Inr (), stats1\<lparr>endTime := Some (clock w3),
                                   durationMs := Some (clock w3 - startTime stats1)\<rparr>, w3)))"
  proof -
    obtain stats1 w2 where rf: "runFullSync env client
                 \<lparr>mode = Full, guildsProcessed = 0, channelsProcessed = 0, threadsProcessed = 0,
                  postsProcessed = 0, errorsEncountered = 0, startTime = clock w,
                  endTime = None, durationMs = None\<rparr> (snd (request w)) = (stats1, w2)"
      by (cases "runFullSync env client
                 \<lparr>mode = Full, guildsProcessed = 0, channelsProcessed = 0, threadsProcessed = 0,
                  postsProcessed = 0, errorsEncountered = 0, startTime = clock w,
                  endTime = None, durationMs = None\<rparr> (snd (request w))")
    obtain r w3 where us: "updateSyncState w2 = (r, w3)"
      by (cases "updateSyncState w2")
    show ?thesis
      by (cases r) (simp_all add: smartSync_def Let_def d sel rf us)
  qed
  have "mode (fst (runFullSync env client
                 \<lparr>mode = Full, guildsProcessed = 0, channelsProcessed = 0, threadsProcessed = 0,
                  postsProcessed = 0, errorsEncountered = 0, startTime = clock w,
                  endTime = None, durationMs = None\<rparr> (snd (request w)))) = Full"
    by simp
  then have m: "mode (fst (snd (smartSync env client forceFull w))) = Full"
    unfolding run by (simp add: split_beta count_error_def split: sum.splits)
  from d run m show "getSyncState w = (Some default_state, snd (request w))
     \<and> smartSync env client forceFull w =
         (case runFullSync env client
                 \<lparr>mode = Full, guildsProcessed = 0, channelsProcessed = 0, threadsProcessed = 0,
                  postsProcessed = 0, errorsEncountered = 0, startTime = clock w,
                  endTime = None, durationMs = None\<rparr> (snd (request w)) of
            (stats1, w2) \<Rightarrow>
              (case updateSyncState w2 of
                 (Inl e, w3) \<Rightarrow> (Inl e, count_error stats1, w3)
               | (Inr u, w3) \<Rightarrow>
                   (Inr (), stats1\<lparr>endTime := Some (clock w3),
                                   durationMs := Some (clock w3 - startTime stats1)\<rparr>, w3)))
     \<and> mode (fst (snd (smartSync env client forceFull w))) = Full"
    by (intro conjI)
qed

section \<open>Evaluating a run\<close>

lemma hash_ab [simp]: "hashUserId env0 ''ab'' = Inr ''ba7816bf8f01''"
  using sha256_abc by (simp add: hashUserId_def env0_def substring_0)

lemma sanitize_empty [simp]: "convertToHtml (sanitizedContent (sanitizeContent [])) = []"
  by code_simp

lemma slug_q [simp]: "upsertThread_slug ''q'' = ''q''" "upsertThread_slug ''g'' = ''g''"
  "syncSpecificThread_slug ''q'' = ''q''"
  by code_simp+

lemmas store_eval = insert_thread_def insert_post_def find_thread_def find_post_def
  slug_holder_def change_row_def set_reply_count_def count_posts_def

lemmas run_eval = smartSync_def select_and_run_def getSyncState_def updateSyncState_def
  runFullSync_def syncGuild_def syncChannelThreads_def fetch_threads_def upsertChannel_def
  syncThreadFull_def upsertThread_def starter_body_def getStaffTag_def fetchAllMessages_def
  upsertPost_def lookup_reply_def reference_of_def updateThreadReplyCount_def store_eval
  content_html_def author_alias_def edited_or_created_def request_def sleep_def
  default_state_def count_error_def
  world0_def guild0_def channel0_def thread0_def starter0_def reply0_def

lemmas hist_eval = syncSpecificThread_def reconcile_thread_def syncMessage_def
  reply_context_def fetch_reference_alias_def updateReplyReferences_def reply_messages_def
  tag_names_def fetchAllMessages_def reference_of_def content_html_def edited_or_created_def
  request_def sleep_def store_thread_def store_eval
  world_ch_def world0_def thread0_def starter0_def reply0_def hstats0_def

text \<open>
  Claim C1 (the code departs from it). A first run over the small forum starts at time 1000, as
  the statistics record; the pagination sleeps 100 ms after its batch; \<open>updateSyncState\<close> takes
  a new time stamp when it is called, so the cursor is 1100, not the start time.
\<close>

theorem smartSync_cursor_is_write_time:
  "fst (smartSync env0 [guild0] False world0) = Inr ()
   \<and> startTime (fst (snd (smartSync env0 [guild0] False world0))) = 1000
   \<and> config (snd (snd (smartSync env0 [guild0] False world0))) ''sync_state''
       = Some (JsonState \<lparr>last_sync = Some 1100, is_first_run = Some 0\<rparr>)"
  by (simp add: run_eval Let_def)

text \<open>A run that throws (the cursor row holds \<open>null\<close>, so reading \<open>is_first_run\<close> throws) and
  a first run that returns.\<close>

theorem smartSync_cursor_witness:
  "fst (smartSync env0 [guild0] False world_null) = Inl (TypeError ''Cannot read properties of null'')
   \<and> config (snd (snd (smartSync env0 [guild0] False world_null))) = config world_null
   \<and> fst (smartSync env0 [guild0] False world0) = Inr ()
   \<and> config world0 ''sync_state'' \<noteq> None
   \<and> (\<exists>t. config (snd (snd (smartSync env0 [guild0] False world0))) =
         (config world0)(''sync_state'' \<mapsto> JsonState \<lparr>last_sync = Some t, is_first_run = Some 0\<rparr>))"
proof -
  have e: "fst (smartSync env0 [guild0] False world_null)
             = Inl (TypeError ''Cannot read properties of null'')"
    by (simp add: run_eval world_null_def Let_def)
  have r: "fst (smartSync env0 [guild0] False world0) = Inr ()"
    by (simp add: run_eval Let_def)
  have c: "config world0 ''sync_state'' \<noteq> None"
    by (simp add: world0_def)
  from smartSync_cursor [where env = env0 and client = "[guild0]" and forceFull = False
      and w = world_null and e = "TypeError ''Cannot read properties of null''"] e
  have 1: "config (snd (snd (smartSync env0 [guild0] False world_null))) = config world_null"
    by blast
  from smartSync_cursor [where env = env0 and client = "[guild0]" and forceFull = False
      and w = world0 and u = "()"] r c
  have 2: "\<exists>t. config (snd (snd (smartSync env0 [guild0] False world0))) =
         (config world0)(''sync_state'' \<mapsto> JsonState \<lparr>last_sync = Some t, is_first_run = Some 0\<rparr>)"
    by blast
  from e 1 r c 2 show ?thesis by blast
qed

text \<open>A run on a table without the cursor row: the full traversal stores the thread and its
  two messages.\<close>

theorem getSyncState_failure_selects_full_witness:
  "config world_no_row ''sync_state'' = None
   \<and> getSyncState world_no_row = (Some default_state, snd (request world_no_row))
   \<and> mode (fst (snd (smartSync env0 [guild0] False world_no_row))) = Full
   \<and> threadsProcessed (fst (snd (smartSync env0 [guild0] False world_no_row))) = 1
   \<and> postsProcessed (fst (snd (smartSync env0 [guild0] False world_no_row))) = 2"
proof -
  have h: "config world_no_row ''sync_state'' = None"
    by (simp add: world_no_row_def world0_def)
  then have "\<not> fst (request world_no_row) \<or> config world_no_row ''sync_state'' = None"
    by simp
  from getSyncState_failure_selects_full [where env = env0 and client = "[guild0]"
      and forceFull = False, THEN mp, OF this]
  have 1: "getSyncState world_no_row = (Some default_state, snd (request world_no_row))"
    and 2: "mode (fst (snd (smartSync env0 [guild0] False world_no_row))) = Full"
    by blast+
  have 3: "threadsProcessed (fst (snd (smartSync env0 [guild0] False world_no_row))) = 1
     \<and> postsProcessed (fst (snd (smartSync env0 [guild0] False world_no_row))) = 2"
    by (simp add: run_eval world_no_row_def Let_def)
  from h 1 2 3 show ?thesis by blast
qed

section \<open>Reply counts\<close>

lemma request_tables [simp]:
  "posts (snd (request w)) = posts w" "threads (snd (request w)) = threads w"
  by (simp_all add: request_def split: list.splits prod.splits)

lemma sleep_tables [simp]: "posts (sleep n w) = posts w" "threads (sleep n w) = threads w"
  by (simp_all add: sleep_def)



lemma getStaffTag_tables [simp]:
  "posts (snd (getStaffTag env u w)) = posts w" "threads (snd (getStaffTag env u w)) = threads w"
  by (simp_all add: getStaffTag_def split_beta split: sum.splits option.splits)

lemma starter_body_tables [simp]:
  "posts (snd (starter_body t w)) = posts w" "threads (snd (starter_body t w)) = threads w"
  by (simp_all add: starter_body_def split_beta split: option.splits)

lemma insert_post_threads [simp]: "threads (snd (insert_post i new w)) = threads w"
  by (simp add: insert_post_def)

lemma insert_thread_posts [simp]: "posts (snd (insert_thread i new f w)) = posts w"
  by (simp add: insert_thread_def split: option.splits)

lemma lookup_reply_threads [simp]: "threads (snd (lookup_reply ref w)) = threads w"
  by (simp add: lookup_reply_def split_beta split: option.splits)

lemma upsertPost_threads [simp]: "threads (snd (snd (upsertPost env m stats w))) = threads w"
  by (simp add: upsertPost_def split_beta split: sum.splits)

lemma upsertPosts_threads [simp]: "threads (snd (upsertPosts env ms stats w)) = threads w"
  by (induction ms arbitrary: stats w) (simp_all add: split_beta split: sum.splits)

lemma fetch_batches_threads [simp]: "threads (snd (fetch_batches pages acc w)) = threads w"
  by (induction pages arbitrary: acc w) (simp_all add: split_beta)



lemma set_reply_count_posts [simp]: "posts (set_reply_count i n w) = posts w"
  by (simp add: set_reply_count_def)






lemma syncMessage_threads [simp]: "threads (snd (snd (syncMessage env m st w))) = threads w"
  by (simp add: syncMessage_def reply_context_def fetch_reference_alias_def split_beta
      split: sum.splits option.splits)

lemma syncMessages_threads [simp]: "threads (snd (snd (syncMessages env ms n st w))) = threads w"
  by (induction ms arbitrary: n st w) (simp_all add: split_beta split: sum.splits)

lemma updateReplyReferences_threads [simp]:
  "threads (snd (updateReplyReferences m w)) = threads w"
  by (simp add: updateReplyReferences_def split_beta split: option.splits)

lemma updateReferences_threads [simp]: "threads (updateReferences ms w) = threads w"
  by (induction ms arbitrary: w) simp_all






section \<open>The reply counts of the small forum\<close>

lemma thread0_fields [simp]:
  "t_id thread0 = ''10''" "t_starter thread0 = Some starter0" "m_bot starter0 = False"
  "t_id thread2 = ''10''"
  by (simp_all add: thread0_def starter0_def thread2_def)




text \<open>A thread whose slug another thread holds: \<open>upsertThread\<close> updates the row of the other
  thread and inserts none, the two posts are refused for want of their thread and counted as
  errors, the update of the reply count finds no row, and \<open>syncThreadFull\<close> returns.\<close>

lemma syncThreadFull_slug_held:
  "fst (syncThreadFull env0 thread0 sstats0 (world_ch\<lparr>threads := [(''20'', row10)]\<rparr>)) = Inr ()
   \<and> errorsEncountered
        (fst (snd (syncThreadFull env0 thread0 sstats0 (world_ch\<lparr>threads := [(''20'', row10)]\<rparr>)))) = 2
   \<and> posts (snd (snd (syncThreadFull env0 thread0 sstats0 (world_ch\<lparr>threads := [(''20'', row10)]\<rparr>)))) = []
   \<and> map fst (threads
        (snd (snd (syncThreadFull env0 thread0 sstats0 (world_ch\<lparr>threads := [(''20'', row10)]\<rparr>)))))
       = [''20'']"
  by (simp add: run_eval sstats0_def world_ch_def row10_def Let_def)



section \<open>Reply references\<close>

lemma syncSpecificThread_world1:
  "syncSpecificThread env0 (Some thread1) False hstats0 world1 =
    (Inr (),
     hstats0\<lparr>h_threadsProcessed := 1, h_postsProcessed := 1\<rparr>,
     world1\<lparr>posts := [(''9'', post9),
                (''11'', \<lparr>p_thread_id = ''10'', p_author_alias = ''ba7816bf8f01'',
                 p_body_html = [], p_reply_to_id = Some ''9'', p_reply_to_author_alias = None,
                 p_created_at = 7, p_updated_at = 7\<rparr>)],
            threads := [(''10'', row10\<lparr>th_updated_at := 1000\<rparr>)],
            clock := 1100\<rparr>)"
  by (simp add: hist_eval Let_def thread1_def reply1_def world1_def row10_def)

lemma upsertPost_world1:
  "upsertPost env0 reply1 sstats0 world1 =
    (Inr (),
     sstats0\<lparr>postsProcessed := 1\<rparr>,
     world1\<lparr>posts := [(''9'', post9),
                (''11'', \<lparr>p_thread_id = ''10'', p_author_alias = ''ba7816bf8f01'',
                 p_body_html = [], p_reply_to_id = Some ''9'',
                 p_reply_to_author_alias = Some ''0123456789ab'',
                 p_created_at = 7, p_updated_at = 7\<rparr>)]\<rparr>)"
  by (simp add: run_eval world_ch_def Let_def reply1_def world1_def sstats0_def post9_def)

text \<open>
  Claim C4 (the code departs from it). The store holds the post \<open>9\<close>, whose author alias is
  \<open>0123456789ab\<close>; the message \<open>11\<close> of the thread carries a reference to \<open>9\<close>, and the platform
  no longer has the message \<open>9\<close>. \<open>syncSpecificThread\<close> reconciles the thread, both passes
  included, and the post \<open>11\<close> is stored with \<open>reply_to_id = 9\<close> and no \<open>reply_to_author_alias\<close>:
  \<open>syncMessage\<close> asks the platform for the alias and looks only for the id in the table, and
  the repair pass leaves a post alone whose \<open>reply_to_id\<close> is set. On the same store
  \<open>upsertPost\<close>, the same step of the smart sync, stores the alias of the post \<open>9\<close>.
\<close>

theorem syncMessage_reference_without_alias:
  "reference_of reply1 = Some ''9''
   \<and> fst (syncSpecificThread env0 (Some thread1) False hstats0 world1) = Inr ()
   \<and> map_option p_author_alias
        (find_post (snd (snd (syncSpecificThread env0 (Some thread1) False hstats0 world1))) ''9'')
       = Some ''0123456789ab''
   \<and> map_option p_reply_to_id
        (find_post (snd (snd (syncSpecificThread env0 (Some thread1) False hstats0 world1))) ''11'')
       = Some (Some ''9'')
   \<and> map_option p_reply_to_author_alias
        (find_post (snd (snd (syncSpecificThread env0 (Some thread1) False hstats0 world1))) ''11'')
       = Some None
   \<and> map_option p_reply_to_author_alias
        (find_post (snd (snd (upsertPost env0 reply1 sstats0 world1))) ''11'')
       = Some (Some ''0123456789ab'')"
proof -
  have "reference_of reply1 = Some ''9''"
    by (simp add: reference_of_def reply1_def)
  then show ?thesis
    by (simp add: syncSpecificThread_world1 upsertPost_world1 find_post_def post9_def)
qed

section \<open>The sanitizer\<close>

subsection \<open>The matcher only moves forward\<close>

lemma reaches_refl [simp]: "reaches st st"
  by (simp add: reaches_def)





subsection \<open>Plain text passes the pipeline unchanged\<close>







lemma to_lower_fix [simp]: "\<not> is_upper c \<Longrightarrow> to_lower c = c"
  by (simp add: to_lower_def)


lemma to_lower_upper: "is_upper x \<Longrightarrow> is_lower (to_lower x)"
  apply (auto simp: is_upper_def)
  apply code_simp+
  done

lemma to_lower_not_lower: "\<not> is_lower c \<Longrightarrow> \<not> is_upper c \<Longrightarrow> to_lower x = c \<Longrightarrow> x = c"
  using to_lower_upper [of x] by (cases "is_upper x") auto

lemma to_lower_markup:
  "to_lower x = CHR ''<'' \<Longrightarrow> x = CHR ''<''" "to_lower x = CHR '':'' \<Longrightarrow> x = CHR '':''"
  by (erule to_lower_not_lower [rotated 2], simp add: is_lower_def, simp add: is_upper_def)+

lemma needs_markup_chr_i [simp]:
  "needs_char is_markup (chr_i CHR ''<'')" "needs_char is_markup (chr_i CHR '':'')"
  by (auto simp: chr_i_def is_markup_def is_upper_def dest: to_lower_markup)











end
